theory Spec2Isabelle
  imports Main
begin

section \<open>Strings, exceptions and the builtins the module calls\<close>

text \<open>
  The module under verification is \<^verbatim>\<open>src/config.py\<close>. A Python \<^verbatim>\<open>str\<close> is a
  sequence of Unicode code points, so it is modelled as a list of natural numbers;
  \<open>str\<close> embeds an ASCII literal of the source.
\<close>

type_synonym ustr = "nat list"

definition str :: "string \<Rightarrow> ustr" where
  "str s = map of_char s"

text \<open>\<^verbatim>\<open>sep.join(xs)\<close>.\<close>

fun join :: "ustr \<Rightarrow> ustr list \<Rightarrow> ustr" where
  "join sep [] = []"
| "join sep [x] = x"
| "join sep (x # y # ys) = x @ sep @ join sep (y # ys)"

text \<open>\<^verbatim>\<open>needle in hay\<close> on strings: \<open>contains hay needle\<close>.\<close>

fun contains :: "ustr \<Rightarrow> ustr \<Rightarrow> bool" where
  "contains [] needle = (needle = [])"
| "contains (c # cs) needle = (take (length needle) (c # cs) = needle \<or> contains cs needle)"

text \<open>
  The exceptions the module can raise. The payloads of \<open>ValueError\<close> are Python's class
  \<^verbatim>\<open>ValueError\<close> and its subclass: \<open>InvalidLiteral s\<close> is the builtin's "invalid literal
  for int() with base 10" for the string \<open>s\<close>, \<open>DigitLimit n\<close> is the builtin's "Exceeds
  the limit (4300 digits) for integer string conversion" for a literal of \<open>n\<close> digits,
  \<open>Message m\<close> is \<^verbatim>\<open>raise ValueError(m)\<close> of \<^verbatim>\<open>validate_config\<close>, \<open>UnknownLevel s\<close> is
  the logging library's "Unknown level" for the string \<open>s\<close>, and \<open>UnicodeEncodeError\<close> is
  the subclass an output stream raises for a text its encoding cannot represent; its
  message names the codec and the character, not a setting. \<open>TypeError\<close> is the logging
  library's "Level not an integer or a valid string". \<open>OSError e p\<close> is an operating
  system error on the path \<open>p\<close>.
\<close>

datatype value_error =
  InvalidLiteral ustr | DigitLimit nat | Message ustr | UnknownLevel ustr | UnicodeEncodeError

datatype errno = ENOENT | EEXIST | ENOTDIR | EACCES | EISDIR

type_synonym path = "ustr list"

datatype exn = ValueError value_error | OSError errno path | TypeError

definition bind :: "exn + 'a \<Rightarrow> ('a \<Rightarrow> exn + 'b) \<Rightarrow> exn + 'b" where
  "bind r f = (case r of Inl e \<Rightarrow> Inl e | Inr x \<Rightarrow> f x)"

subsection \<open>The builtin \<^verbatim>\<open>int\<close> on a string\<close>

text \<open>
  \<^verbatim>\<open>int(s)\<close> of CPython, base 10. Every code point from 127 on is first replaced: a
  Unicode whitespace by a blank, a Unicode decimal digit by its ASCII digit, anything
  else by a question mark. The literal is then optional ASCII whitespace, an optional
  sign, digits with single underscores between them, and optional ASCII whitespace. The
  decimal digits of Unicode 14.0 come in 66 runs of ten; \<open>decimal_zeros\<close> lists the zero
  of each run.
\<close>

definition Py_ISSPACE :: "nat \<Rightarrow> bool" where
  "Py_ISSPACE c = ((9 \<le> c \<and> c \<le> 13) \<or> c = 32)"

definition unicode_whitespace :: "nat list" where
  "unicode_whitespace =
     [9, 10, 11, 12, 13, 28, 29, 30, 31, 32, 133, 160, 5760,
      8192, 8193, 8194, 8195, 8196, 8197, 8198, 8199, 8200, 8201, 8202,
      8232, 8233, 8239, 8287, 12288]"

definition Py_UNICODE_ISSPACE :: "nat \<Rightarrow> bool" where
  "Py_UNICODE_ISSPACE c = (c \<in> set unicode_whitespace)"

definition decimal_zeros :: "nat list" where
  "decimal_zeros =
     [48, 1632, 1776, 1984, 2406, 2534, 2662, 2790, 2918, 3046, 3174, 3302, 3430,
      3558, 3664, 3792, 3872, 4160, 4240, 6112, 6160, 6470, 6608, 6784, 6800, 6992,
      7088, 7232, 7248, 42528, 43216, 43264, 43472, 43504, 43600, 44016, 65296,
      66720, 68912, 69734, 69872, 69942, 70096, 70384, 70736, 70864, 71248, 71360,
      71472, 71904, 72016, 72784, 73040, 73120, 92768, 92864, 93008, 120782, 120792,
      120802, 120812, 120822, 123200, 123632, 125264, 130032]"

definition Py_UNICODE_TODECIMAL :: "nat \<Rightarrow> nat option" where
  "Py_UNICODE_TODECIMAL c =
     (case List.find (\<lambda>z. z \<le> c \<and> c < z + 10) decimal_zeros of
        None \<Rightarrow> None
      | Some z \<Rightarrow> Some (c - z))"

definition to_ascii :: "nat \<Rightarrow> nat" where
  "to_ascii c =
     (if c < 127 then c
      else if Py_UNICODE_ISSPACE c then 32
      else (case Py_UNICODE_TODECIMAL c of Some d \<Rightarrow> 48 + d | None \<Rightarrow> 63))"

definition is_digit :: "nat \<Rightarrow> bool" where
  "is_digit c = (48 \<le> c \<and> c \<le> 57)"

definition digit_or_underscore :: "nat \<Rightarrow> bool" where
  "digit_or_underscore c = (is_digit c \<or> c = 95)"

text \<open>No two underscores in a row and none at the end of the run of digits.\<close>

fun underscores_ok :: "nat list \<Rightarrow> bool" where
  "underscores_ok [] = True"
| "underscores_ok [c] = (c \<noteq> 95)"
| "underscores_ok (c # d # cs) = (\<not> (c = 95 \<and> d = 95) \<and> underscores_ok (d # cs))"

definition digits_value :: "nat list \<Rightarrow> int" where
  "digits_value ds = foldl (\<lambda>acc c. 10 * acc + int (c - 48)) 0 ds"

definition int_max_str_digits :: nat where
  "int_max_str_digits = 4300"

definition python_int :: "ustr \<Rightarrow> exn + int" where
  "python_int s =
     (let xs = dropWhile Py_ISSPACE (map to_ascii s);
          neg = (case xs of [] \<Rightarrow> False | c # _ \<Rightarrow> c = 45);
          ys = (case xs of [] \<Rightarrow> [] | c # cs \<Rightarrow> if c = 43 \<or> c = 45 then cs else c # cs);
          run = takeWhile digit_or_underscore ys;
          rest = dropWhile digit_or_underscore ys;
          digits = filter is_digit run
      in if (case ys of [] \<Rightarrow> False | c # _ \<Rightarrow> c = 95) then Inl (ValueError (InvalidLiteral s))
         else if \<not> underscores_ok run then Inl (ValueError (InvalidLiteral s))
         else if int_max_str_digits < length digits
           then Inl (ValueError (DigitLimit (length digits)))
         else if digits = [] then Inl (ValueError (InvalidLiteral s))
         else if dropWhile Py_ISSPACE rest \<noteq> [] then Inl (ValueError (InvalidLiteral s))
         else Inr (if neg then - digits_value digits else digits_value digits))"

section \<open>Settings\<close>

text \<open>
  The process environment as the module reads it, after \<^verbatim>\<open>load_dotenv()\<close> has merged
  the local override file into it: a map from variable names to values.
\<close>

type_synonym environ = "ustr \<rightharpoonup> ustr"

text \<open>\<^verbatim>\<open>os.getenv(key, default)\<close>; \<^verbatim>\<open>os.getenv(key)\<close> is the lookup \<open>env key\<close> itself.\<close>

definition getenv :: "environ \<Rightarrow> ustr \<Rightarrow> ustr \<Rightarrow> ustr" where
  "getenv env key dflt = (case env key of None \<Rightarrow> dflt | Some v \<Rightarrow> v)"

text \<open>The module-level settings of lines 32 to 59.\<close>

record config =
  OPENAI_API_KEY :: "ustr option"
  OPENAI_MODEL :: ustr
  GEMINI_API_KEY :: "ustr option"
  GEMINI_MODEL :: ustr
  DEEPSEEK_API_KEY :: "ustr option"
  DEEPSEEK_MODEL :: ustr
  DEEPSEEK_BASE_URL :: ustr
  MAX_STEPS :: int
  SCREENSHOT_TIMEOUT :: int
  DEFAULT_VIEWPORT_WIDTH :: int
  DEFAULT_VIEWPORT_HEIGHT :: int
  GRID_SIZE :: int
  GRID_COLOR :: ustr
  NAVIGATION_TIMEOUT :: int
  PAGE_LOAD_WAIT :: int
  LOG_LEVEL :: ustr

text \<open>
  The assignments run top to bottom, so the first \<^verbatim>\<open>int\<close> that raises ends the load.
  The string settings cannot raise.
\<close>

definition load_settings :: "environ \<Rightarrow> exn + config" where
  "load_settings env =
     bind (python_int (getenv env (str ''MAX_STEPS'') (str ''15''))) (\<lambda>max_steps.
     bind (python_int (getenv env (str ''SCREENSHOT_TIMEOUT'') (str ''30000''))) (\<lambda>screenshot_timeout.
     bind (python_int (getenv env (str ''DEFAULT_VIEWPORT_WIDTH'') (str ''1920''))) (\<lambda>viewport_width.
     bind (python_int (getenv env (str ''DEFAULT_VIEWPORT_HEIGHT'') (str ''1080''))) (\<lambda>viewport_height.
     bind (python_int (getenv env (str ''GRID_SIZE'') (str ''100''))) (\<lambda>grid_size.
     bind (python_int (getenv env (str ''NAVIGATION_TIMEOUT'') (str ''30000''))) (\<lambda>navigation_timeout.
     bind (python_int (getenv env (str ''PAGE_LOAD_WAIT'') (str ''2000''))) (\<lambda>page_load_wait.
     Inr \<lparr> OPENAI_API_KEY = env (str ''OPENAI_API_KEY''),
           OPENAI_MODEL = getenv env (str ''OPENAI_MODEL'') (str ''gpt-5-mini''),
           GEMINI_API_KEY = env (str ''GEMINI_API_KEY''),
           GEMINI_MODEL = getenv env (str ''GEMINI_MODEL'') (str ''gemini-1.5-pro''),
           DEEPSEEK_API_KEY = env (str ''DEEPSEEK_API_KEY''),
           DEEPSEEK_MODEL = getenv env (str ''DEEPSEEK_MODEL'') (str ''deepseek-chat''),
           DEEPSEEK_BASE_URL = getenv env (str ''DEEPSEEK_BASE_URL'') (str ''https://api.deepseek.com''),
           MAX_STEPS = max_steps,
           SCREENSHOT_TIMEOUT = screenshot_timeout,
           DEFAULT_VIEWPORT_WIDTH = viewport_width,
           DEFAULT_VIEWPORT_HEIGHT = viewport_height,
           GRID_SIZE = grid_size,
           GRID_COLOR = getenv env (str ''GRID_COLOR'') (str ''rgba(255,0,0,0.3)''),
           NAVIGATION_TIMEOUT = navigation_timeout,
           PAGE_LOAD_WAIT = page_load_wait,
           LOG_LEVEL = getenv env (str ''LOG_LEVEL'') (str ''INFO'') \<rparr>)))))))"

text \<open>
  The table of the specification's section 6, to compare the load with: the default of
  every setting, and the names of the variables read as integers, in the order of their
  assignments.
\<close>

definition documented_defaults :: config where
  "documented_defaults =
     \<lparr> OPENAI_API_KEY = None,
       OPENAI_MODEL = str ''gpt-5-mini'',
       GEMINI_API_KEY = None,
       GEMINI_MODEL = str ''gemini-1.5-pro'',
       DEEPSEEK_API_KEY = None,
       DEEPSEEK_MODEL = str ''deepseek-chat'',
       DEEPSEEK_BASE_URL = str ''https://api.deepseek.com'',
       MAX_STEPS = 15,
       SCREENSHOT_TIMEOUT = 30000,
       DEFAULT_VIEWPORT_WIDTH = 1920,
       DEFAULT_VIEWPORT_HEIGHT = 1080,
       GRID_SIZE = 100,
       GRID_COLOR = str ''rgba(255,0,0,0.3)'',
       NAVIGATION_TIMEOUT = 30000,
       PAGE_LOAD_WAIT = 2000,
       LOG_LEVEL = str ''INFO'' \<rparr>"

definition numeric_settings :: "ustr list" where
  "numeric_settings =
     [str ''MAX_STEPS'', str ''SCREENSHOT_TIMEOUT'', str ''DEFAULT_VIEWPORT_WIDTH'',
      str ''DEFAULT_VIEWPORT_HEIGHT'', str ''GRID_SIZE'', str ''NAVIGATION_TIMEOUT'',
      str ''PAGE_LOAD_WAIT'']"

text \<open>
  The environment sets every numeric variable it sets to a value that \<^verbatim>\<open>int\<close>
  accepts.
\<close>

definition valid_numeric_settings :: "environ \<Rightarrow> bool" where
  "valid_numeric_settings env =
     list_all (\<lambda>k. case env k of None \<Rightarrow> True | Some v \<Rightarrow> \<not> isl (python_int v))
       numeric_settings"

section \<open>Validation\<close>

text \<open>Python's \<^verbatim>\<open>not x\<close> for a value that is \<^verbatim>\<open>None\<close> or a string.\<close>

definition falsy :: "ustr option \<Rightarrow> bool" where
  "falsy x = (case x of None \<Rightarrow> True | Some s \<Rightarrow> s = [])"

text \<open>
  Standard output, as \<^verbatim>\<open>print\<close> meets it: a stream says which exception, if any, writing
  a text to it raises. \<^verbatim>\<open>print(text)\<close> either adds the line to what has been written or
  raises that exception and writes nothing.
\<close>

type_synonym stream = "ustr \<Rightarrow> exn option"

definition print :: "stream \<Rightarrow> ustr list \<Rightarrow> ustr \<Rightarrow> exn + ustr list" where
  "print out written text =
     (case out text of Some e \<Rightarrow> Inl e | None \<Rightarrow> Inr (written @ [text]))"

text \<open>
  Two streams of CPython with the error handler \<^verbatim>\<open>strict\<close>, which standard output has:
  the UTF-8 codec encodes every code point but the surrogates, the ASCII codec the code
  points below 128.
\<close>

definition utf8_stdout :: stream where
  "utf8_stdout text =
     (if list_ex (\<lambda>c. 55296 \<le> c \<and> c \<le> 57343) text
      then Some (ValueError UnicodeEncodeError) else None)"

definition ascii_stdout :: stream where
  "ascii_stdout text =
     (if list_all (\<lambda>c. c < 128) text then None else Some (ValueError UnicodeEncodeError))"

text \<open>A stream that takes every text made of ASCII characters and U+26A0 (9888).\<close>

definition encodes_warnings :: "stream \<Rightarrow> bool" where
  "encodes_warnings out =
     (\<forall>text. list_all (\<lambda>c. c < 128 \<or> c = 9888) text \<longrightarrow> out text = None)"

text \<open>
  \<^verbatim>\<open>validate_config()\<close> reads three module-level settings and prints to standard
  output. The result pairs the lines written with the outcome: \<open>Inr ()\<close> for a normal
  return, \<open>Inl\<close> for the exception raised. The warning line starts with the code point
  U+26A0 (9888); it is printed before the errors are looked at, so an exception of
  \<^verbatim>\<open>print\<close> ends the call there.
\<close>

definition validate_config :: "stream \<Rightarrow> config \<Rightarrow> ustr list \<times> (exn + unit)" where
  "validate_config out cfg =
     (let errors = [];
          warnings = [];
          errors = (if falsy (OPENAI_API_KEY cfg)
                    then errors @ [str ''OPENAI_API_KEY is not set (required for primary LLM)'']
                    else errors);
          warnings = (if falsy (GEMINI_API_KEY cfg)
                      then warnings @ [str ''GEMINI_API_KEY is not set (optional fallback)'']
                      else warnings);
          warnings = (if falsy (DEEPSEEK_API_KEY cfg)
                      then warnings @ [str ''DEEPSEEK_API_KEY is not set (optional auxiliary LLM)'']
                      else warnings);
          printed = (if warnings \<noteq> []
                     then print out [] (9888 # str '' Warnings: '' @ join (str '', '') warnings)
                     else Inr [])
      in case printed of
           Inl e \<Rightarrow> ([], Inl e)
         | Inr stdout \<Rightarrow>
             (stdout,
              if errors \<noteq> []
              then Inl (ValueError (Message
                     (str ''Configuration errors: '' @ join (str '', '') errors)))
              else Inr ()))"

section \<open>Static reference data\<close>

text \<open>\<^verbatim>\<open>NIELSEN_HEURISTICS\<close>, lines 73 to 84.\<close>

definition NIELSEN_HEURISTICS :: "ustr list" where
  "NIELSEN_HEURISTICS =
     [str ''Visibility of system status'',
      str ''Match between system and the real world'',
      str ''User control and freedom'',
      str ''Consistency and standards'',
      str ''Error prevention'',
      str ''Recognition rather than recall'',
      str ''Flexibility and efficiency of use'',
      str ''Aesthetic and minimalist design'',
      str ''Help users recognize, diagnose, and recover from errors'',
      str ''Help and documentation'']"

text \<open>
  A value of the dictionary \<^verbatim>\<open>PERSONAS\<close>, lines 87 to 172: every persona has the same
  ten keys. The Russian texts are written as their code points.
\<close>

record persona =
  name :: ustr
  name_en :: ustr
  age :: int
  tech_level :: ustr
  characteristics :: "ustr list"
  goals :: "ustr list"
  pain_points :: "ustr list"
  devices :: "ustr list"
  time_pressure :: ustr
  system_prompt :: ustr

definition student_persona :: persona where
  "student_persona =
     \<lparr> name =
          [1057, 1090, 1091, 1076, 1077, 1085, 1090],
       name_en =
          str ''Student'',
       age = 20,
       tech_level =
          [1074, 1099, 1089, 1086, 1082, 1080, 1081],
       characteristics =
         [[1040, 1082, 1090, 1080, 1074, 1085, 1099, 1081, 32, 1087, 1086, 1083, 1100, 1079,
          1086, 1074, 1072, 1090, 1077, 1083, 1100, 32, 1084, 1086, 1073, 1080, 1083, 1100,
          1085, 1099, 1093, 32, 1091, 1089, 1090, 1088, 1086, 1081, 1089, 1090, 1074],
          [1052, 1085, 1086, 1075, 1086, 1079, 1072, 1076, 1072, 1095, 1085, 1086, 1089,
          1090, 1100, 32, 1080, 32, 1073, 1099, 1089, 1090, 1088, 1086, 1077, 32, 1087,
          1077, 1088, 1077, 1082, 1083, 1102, 1095, 1077, 1085, 1080, 1077, 32, 1084, 1077,
          1078, 1076, 1091, 32, 1088, 1072, 1079, 1076, 1077, 1083, 1072, 1084, 1080],
          [1054, 1075, 1088, 1072, 1085, 1080, 1095, 1077, 1085, 1085, 1086, 1077, 32, 1074,
          1088, 1077, 1084, 1103, 32, 1084, 1077, 1078, 1076, 1091, 32, 1087, 1072, 1088,
          1072, 1084, 1080],
          [1055, 1088, 1080, 1074, 1099, 1095, 1082, 1072, 32, 1082, 32, 1089, 1086, 1074,
          1088, 1077, 1084, 1077, 1085, 1085, 1099, 1084, 32, 85, 73, 32, 1087, 1072, 1090,
          1090, 1077, 1088, 1085, 1072, 1084, 32, 40, 1089, 1074, 1072, 1081, 1087, 1099,
          44, 32, 1078, 1077, 1089, 1090, 1099, 41]],
       goals =
         [[1041, 1099, 1089, 1090, 1088, 1086, 32, 1085, 1072, 1081, 1090, 1080, 32, 1088,
          1072, 1089, 1087, 1080, 1089, 1072, 1085, 1080, 1077, 32, 1079, 1072, 1085, 1103,
          1090, 1080, 1081],
          [1057, 1082, 1072, 1095, 1072, 1090, 1100, 32, 1091, 1095, 1077, 1073, 1085, 1099,
          1077, 32, 1084, 1072, 1090, 1077, 1088, 1080, 1072, 1083, 1099],
          [1057, 1076, 1072, 1090, 1100, 32, 1076, 1086, 1084, 1072, 1096, 1085, 1077, 1077,
          32, 1079, 1072, 1076, 1072, 1085, 1080, 1077, 32, 1086, 1085, 1083, 1072, 1081,
          1085],
          [1055, 1088, 1086, 1074, 1077, 1088, 1080, 1090, 1100, 32, 1086, 1094, 1077, 1085,
          1082, 1080, 32, 1080, 32, 1079, 1072, 1095, 1077, 1090, 1082, 1091],
          [1053, 1072, 1081, 1090, 1080, 32, 1082, 1086, 1085, 1090, 1072, 1082, 1090, 1099,
          32, 1087, 1088, 1077, 1087, 1086, 1076, 1072, 1074, 1072, 1090, 1077, 1083, 1103]],
       pain_points =
         [[1044, 1086, 1083, 1075, 1072, 1103, 32, 1079, 1072, 1075, 1088, 1091, 1079, 1082,
          1072, 32, 1085, 1072, 32, 1084, 1086, 1073, 1080, 1083, 1100, 1085, 1086, 1084,
          32, 1080, 1085, 1090, 1077, 1088, 1085, 1077, 1090, 1077],
          [1053, 1077, 1087, 1086, 1085, 1103, 1090, 1085, 1072, 1103, 32, 1085, 1072, 1074,
          1080, 1075, 1072, 1094, 1080, 1103, 32, 1074, 32, 1083, 1080, 1095, 1085, 1086,
          1084, 32, 1082, 1072, 1073, 1080, 1085, 1077, 1090, 1077],
          [1052, 1077, 1083, 1082, 1080, 1081, 32, 1090, 1077, 1082, 1089, 1090, 32, 1085,
          1072, 32, 1084, 1086, 1073, 1080, 1083, 1100, 1085, 1099, 1093],
          [1054, 1090, 1089, 1091, 1090, 1089, 1090, 1074, 1080, 1077, 32, 112, 117, 115,
          104, 45, 1091, 1074, 1077, 1076, 1086, 1084, 1083, 1077, 1085, 1080, 1081]],
       devices =
         [str ''mobile'',
          str ''tablet'',
          str ''desktop''],
       time_pressure =
          [1074, 1099, 1089, 1086, 1082, 1086, 1077],
       system_prompt =
          [1058, 1099, 32, 1089, 1090, 1091, 1076, 1077, 1085, 1090, 44, 32, 50, 48, 32,
          1083, 1077, 1090, 46, 32, 1058, 1099, 32, 1086, 1087, 1099, 1090, 1085, 1099,
          1081, 32, 1087, 1086, 1083, 1100, 1079, 1086, 1074, 1072, 1090, 1077, 1083, 1100,
          32, 1080, 1085, 1090, 1077, 1088, 1085, 1077, 1090, 1072, 44, 32, 1072, 1082,
          1090, 1080, 1074, 1085, 1086, 32, 1080, 1089, 1087, 1086, 1083, 1100, 1079, 1091,
          1077, 1096, 1100, 32, 1089, 1084, 1072, 1088, 1090, 1092, 1086, 1085, 46, 32,
          1059, 32, 1090, 1077, 1073, 1103, 32, 1084, 1072, 1083, 1086, 32, 1074, 1088,
          1077, 1084, 1077, 1085, 1080, 32, 1084, 1077, 1078, 1076, 1091, 32, 1087, 1072,
          1088, 1072, 1084, 1080, 44, 32, 1087, 1086, 1101, 1090, 1086, 1084, 1091, 32,
          1090, 1077, 1073, 1077, 32, 1085, 1091, 1078, 1085, 1086, 32, 1073, 1099, 1089,
          1090, 1088, 1086, 32, 1085, 1072, 1081, 1090, 1080, 32, 1085, 1091, 1078, 1085,
          1091, 1102, 32, 1080, 1085, 1092, 1086, 1088, 1084, 1072, 1094, 1080, 1102, 46,
          32, 1058, 1099, 32, 1086, 1078, 1080, 1076, 1072, 1077, 1096, 1100, 44, 32, 1095,
          1090, 1086, 32, 1080, 1085, 1090, 1077, 1088, 1092, 1077, 1081, 1089, 32, 1073,
          1091, 1076, 1077, 1090, 32, 1080, 1085, 1090, 1091, 1080, 1090, 1080, 1074, 1085,
          1099, 1084, 32, 1080, 32, 1089, 1086, 1074, 1088, 1077, 1084, 1077, 1085, 1085,
          1099, 1084, 44, 32, 1082, 1072, 1082, 32, 1074, 32, 1087, 1086, 1087, 1091, 1083,
          1103, 1088, 1085, 1099, 1093, 32, 1087, 1088, 1080, 1083, 1086, 1078, 1077, 1085,
          1080, 1103, 1093, 46] \<rparr>"

definition applicant_persona :: persona where
  "applicant_persona =
     \<lparr> name =
          [1040, 1073, 1080, 1090, 1091, 1088, 1080, 1077, 1085, 1090],
       name_en =
          str ''Applicant'',
       age = 17,
       tech_level =
          [1089, 1088, 1077, 1076, 1085, 1080, 1081],
       characteristics =
         [[1055, 1077, 1088, 1074, 1099, 1081, 32, 1088, 1072, 1079, 32, 1085, 1072, 32,
          1089, 1072, 1081, 1090, 1077, 32, 1091, 1085, 1080, 1074, 1077, 1088, 1089, 1080,
          1090, 1077, 1090, 1072],
          [1057, 1090, 1088, 1077, 1089, 1089, 32, 1086, 1090, 32, 1074, 1099, 1073, 1086,
          1088, 1072, 32, 1073, 1091, 1076, 1091, 1097, 1077, 1081, 32, 1087, 1088, 1086,
          1092, 1077, 1089, 1089, 1080, 1080],
          [1063, 1072, 1089, 1090, 1086, 32, 1079, 1072, 1093, 1086, 1076, 1080, 1090, 32,
          1074, 1084, 1077, 1089, 1090, 1077, 32, 1089, 32, 1088, 1086, 1076, 1080, 1090,
          1077, 1083, 1103, 1084, 1080],
          [1057, 1088, 1072, 1074, 1085, 1080, 1074, 1072, 1077, 1090, 32, 1085, 1077, 1089,
          1082, 1086, 1083, 1100, 1082, 1086, 32, 1091, 1085, 1080, 1074, 1077, 1088, 1089,
          1080, 1090, 1077, 1090, 1086, 1074]],
       goals =
         [[1059, 1079, 1085, 1072, 1090, 1100, 32, 1087, 1088, 1086, 1093, 1086, 1076, 1085,
          1099, 1077, 32, 1073, 1072, 1083, 1083, 1099, 32, 1085, 1072, 32, 1087, 1088,
          1086, 1075, 1088, 1072, 1084, 1084, 1091],
          [1055, 1086, 1089, 1084, 1086, 1090, 1088, 1077, 1090, 1100, 32, 1089, 1087, 1080,
          1089, 1086, 1082, 32, 1074, 1089, 1090, 1091, 1087, 1080, 1090, 1077, 1083, 1100,
          1085, 1099, 1093, 32, 1101, 1082, 1079, 1072, 1084, 1077, 1085, 1086, 1074],
          [1053, 1072, 1081, 1090, 1080, 32, 1080, 1085, 1092, 1086, 1088, 1084, 1072, 1094,
          1080, 1102, 32, 1086, 32, 1089, 1090, 1086, 1080, 1084, 1086, 1089, 1090, 1080,
          32, 1086, 1073, 1091, 1095, 1077, 1085, 1080, 1103],
          [1055, 1086, 1085, 1103, 1090, 1100, 32, 1087, 1088, 1086, 1094, 1077, 1089, 1089,
          32, 1087, 1086, 1076, 1072, 1095, 1080, 32, 1076, 1086, 1082, 1091, 1084, 1077,
          1085, 1090, 1086, 1074],
          [1053, 1072, 1081, 1090, 1080, 32, 1076, 1085, 1080, 32, 1086, 1090, 1082, 1088,
          1099, 1090, 1099, 1093, 32, 1076, 1074, 1077, 1088, 1077, 1081]],
       pain_points =
         [[1057, 1083, 1080, 1096, 1082, 1086, 1084, 32, 1084, 1085, 1086, 1075, 1086, 32,
          1085, 1077, 1087, 1086, 1085, 1103, 1090, 1085, 1099, 1093, 32, 1090, 1077, 1088,
          1084, 1080, 1085, 1086, 1074],
          [1048, 1085, 1092, 1086, 1088, 1084, 1072, 1094, 1080, 1103, 32, 1088, 1072, 1089,
          1082, 1080, 1076, 1072, 1085, 1072, 32, 1087, 1086, 32, 1088, 1072, 1079, 1085,
          1099, 1084, 32, 1088, 1072, 1079, 1076, 1077, 1083, 1072, 1084],
          [1053, 1077, 1090, 32, 1095, 1077, 1090, 1082, 1086, 1081, 32, 1080, 1085, 1089,
          1090, 1088, 1091, 1082, 1094, 1080, 1080, 32, 39, 1082, 1072, 1082, 32, 1087,
          1086, 1089, 1090, 1091, 1087, 1080, 1090, 1100, 39],
          [1059, 1089, 1090, 1072, 1088, 1077, 1074, 1096, 1080, 1077, 32, 1076, 1072, 1085,
          1085, 1099, 1077, 32, 40, 1087, 1088, 1086, 1096, 1083, 1086, 1075, 1086, 1076,
          1085, 1080, 1077, 32, 1087, 1088, 1086, 1093, 1086, 1076, 1085, 1099, 1077, 32,
          1073, 1072, 1083, 1083, 1099, 41]],
       devices =
         [str ''mobile'',
          str ''desktop''],
       time_pressure =
          [1089, 1088, 1077, 1076, 1085, 1077, 1077],
       system_prompt =
          [1058, 1099, 32, 1072, 1073, 1080, 1090, 1091, 1088, 1080, 1077, 1085, 1090, 44,
          32, 49, 55, 32, 1083, 1077, 1090, 44, 32, 1074, 1099, 1073, 1080, 1088, 1072,
          1077, 1096, 1100, 32, 1091, 1095, 1077, 1073, 1085, 1086, 1077, 32, 1079, 1072,
          1074, 1077, 1076, 1077, 1085, 1080, 1077, 46, 32, 1058, 1099, 32, 1074, 1087,
          1077, 1088, 1074, 1099, 1077, 32, 1085, 1072, 32, 1101, 1090, 1086, 1084, 32,
          1089, 1072, 1081, 1090, 1077, 32, 1080, 32, 1085, 1077, 1084, 1085, 1086, 1075,
          1086, 32, 1074, 1086, 1083, 1085, 1091, 1077, 1096, 1100, 1089, 1103, 46, 32,
          1058, 1077, 1073, 1077, 32, 1085, 1091, 1078, 1085, 1072, 32, 1087, 1086, 1085,
          1103, 1090, 1085, 1072, 1103, 32, 1080, 1085, 1092, 1086, 1088, 1084, 1072, 1094,
          1080, 1103, 32, 1086, 32, 1087, 1086, 1089, 1090, 1091, 1087, 1083, 1077, 1085,
          1080, 1080, 32, 1073, 1077, 1079, 32, 1089, 1083, 1086, 1078, 1085, 1099, 1093,
          32, 1090, 1077, 1088, 1084, 1080, 1085, 1086, 1074, 46, 32, 1058, 1099, 32, 1073,
          1091, 1076, 1077, 1096, 1100, 32, 1089, 1088, 1072, 1074, 1085, 1080, 1074, 1072,
          1090, 1100, 32, 1101, 1090, 1091, 32, 1080, 1085, 1092, 1086, 1088, 1084, 1072,
          1094, 1080, 1102, 32, 1089, 32, 1076, 1088, 1091, 1075, 1080, 1084, 1080, 32,
          1074, 1072, 1088, 1080, 1072, 1085, 1090, 1072, 1084, 1080, 46] \<rparr>"

definition teacher_persona :: persona where
  "teacher_persona =
     \<lparr> name =
          [1055, 1088, 1077, 1087, 1086, 1076, 1072, 1074, 1072, 1090, 1077, 1083, 1100],
       name_en =
          str ''Teacher'',
       age = 45,
       tech_level =
          [1089, 1088, 1077, 1076, 1085, 1080, 1081],
       characteristics =
         [[1048, 1089, 1087, 1086, 1083, 1100, 1079, 1091, 1077, 1090, 32, 1082, 1086, 1084,
          1087, 1100, 1102, 1090, 1077, 1088, 32, 1074, 32, 1086, 1089, 1085, 1086, 1074,
          1085, 1086, 1084, 32, 1076, 1083, 1103, 32, 1088, 1072, 1073, 1086, 1090, 1099],
          [1062, 1077, 1085, 1080, 1090, 32, 1089, 1090, 1072, 1073, 1080, 1083, 1100, 1085,
          1086, 1089, 1090, 1100, 32, 1080, 32, 1087, 1088, 1080, 1074, 1099, 1095, 1085,
          1099, 1077, 32, 1087, 1072, 1090, 1090, 1077, 1088, 1085, 1099],
          [1052, 1085, 1086, 1075, 1086, 32, 1072, 1076, 1084, 1080, 1085, 1080, 1089, 1090,
          1088, 1072, 1090, 1080, 1074, 1085, 1086, 1081, 32, 1088, 1072, 1073, 1086, 1090,
          1099],
          [1052, 1086, 1078, 1077, 1090, 32, 1088, 1072, 1073, 1086, 1090, 1072, 1090, 1100,
          32, 1089, 32, 1087, 1083, 1072, 1085, 1096, 1077, 1090, 1072, 32, 1074, 32, 1072,
          1091, 1076, 1080, 1090, 1086, 1088, 1080, 1080]],
       goals =
         [[1047, 1072, 1075, 1088, 1091, 1079, 1080, 1090, 1100, 32, 1086, 1094, 1077, 1085,
          1082, 1080, 32, 1089, 1090, 1091, 1076, 1077, 1085, 1090, 1086, 1074],
          [1054, 1087, 1091, 1073, 1083, 1080, 1082, 1086, 1074, 1072, 1090, 1100, 32, 1091,
          1095, 1077, 1073, 1085, 1099, 1077, 32, 1084, 1072, 1090, 1077, 1088, 1080, 1072,
          1083, 1099],
          [1055, 1086, 1089, 1084, 1086, 1090, 1088, 1077, 1090, 1100, 32, 1089, 1087, 1080,
          1089, 1086, 1082, 32, 1089, 1090, 1091, 1076, 1077, 1085, 1090, 1086, 1074, 32,
          1074, 32, 1075, 1088, 1091, 1087, 1087, 1077],
          [1047, 1072, 1073, 1088, 1086, 1085, 1080, 1088, 1086, 1074, 1072, 1090, 1100, 32,
          1072, 1091, 1076, 1080, 1090, 1086, 1088, 1080, 1102],
          [1057, 1086, 1075, 1083, 1072, 1089, 1086, 1074, 1072, 1090, 1100, 32, 1088, 1072,
          1089, 1087, 1080, 1089, 1072, 1085, 1080, 1077, 32, 1082, 1086, 1085, 1089, 1091,
          1083, 1100, 1090, 1072, 1094, 1080, 1081]],
       pain_points =
         [[1057, 1083, 1080, 1096, 1082, 1086, 1084, 32, 1084, 1085, 1086, 1075, 1086, 32,
          1082, 1083, 1080, 1082, 1086, 1074, 32, 1076, 1083, 1103, 32, 1087, 1088, 1086,
          1089, 1090, 1099, 1093, 32, 1076, 1077, 1081, 1089, 1090, 1074, 1080, 1081],
          [1053, 1077, 1087, 1086, 1085, 1103, 1090, 1085, 1072, 1103, 32, 1089, 1080, 1089,
          1090, 1077, 1084, 1072, 32, 1079, 1072, 1075, 1088, 1091, 1079, 1082, 1080, 32,
          1092, 1072, 1081, 1083, 1086, 1074],
          [1053, 1077, 1090, 32, 1074, 1086, 1079, 1084, 1086, 1078, 1085, 1086, 1089, 1090,
          1080, 32, 1084, 1072, 1089, 1089, 1086, 1074, 1099, 1093, 32, 1086, 1087, 1077,
          1088, 1072, 1094, 1080, 1081],
          [1048, 1085, 1090, 1077, 1088, 1092, 1077, 1081, 1089, 32, 1085, 1077, 32, 1072,
          1076, 1072, 1087, 1090, 1080, 1088, 1086, 1074, 1072, 1085, 32, 1087, 1086, 1076,
          32, 1087, 1083, 1072, 1085, 1096, 1077, 1090]],
       devices =
         [str ''desktop'',
          str ''tablet''],
       time_pressure =
          [1085, 1080, 1079, 1082, 1086, 1077],
       system_prompt =
          [1058, 1099, 32, 1087, 1088, 1077, 1087, 1086, 1076, 1072, 1074, 1072, 1090, 1077,
          1083, 1100, 44, 32, 52, 53, 32, 1083, 1077, 1090, 46, 32, 1058, 1099, 32, 1080,
          1089, 1087, 1086, 1083, 1100, 1079, 1091, 1077, 1096, 1100, 32, 1089, 1072, 1081,
          1090, 32, 1088, 1077, 1075, 1091, 1083, 1103, 1088, 1085, 1086, 32, 1076, 1083,
          1103, 32, 1088, 1072, 1073, 1086, 1090, 1099, 32, 1089, 1086, 32, 1089, 1090,
          1091, 1076, 1077, 1085, 1090, 1072, 1084, 1080, 32, 1080, 32, 1087, 1091, 1073,
          1083, 1080, 1082, 1072, 1094, 1080, 1080, 32, 1084, 1072, 1090, 1077, 1088, 1080,
          1072, 1083, 1086, 1074, 46, 32, 1058, 1099, 32, 1094, 1077, 1085, 1080, 1096,
          1100, 32, 1101, 1092, 1092, 1077, 1082, 1090, 1080, 1074, 1085, 1086, 1089, 1090,
          1100, 32, 1080, 32, 1085, 1077, 32, 1083, 1102, 1073, 1080, 1096, 1100, 44, 32,
          1082, 1086, 1075, 1076, 1072, 32, 1080, 1085, 1090, 1077, 1088, 1092, 1077, 1081,
          1089, 32, 1084, 1077, 1085, 1103, 1077, 1090, 1089, 1103, 32, 1073, 1077, 1079,
          32, 1087, 1088, 1080, 1095, 1080, 1085, 1099, 46, 32, 1058, 1099, 32, 1093, 1086,
          1095, 1077, 1096, 1100, 32, 1074, 1099, 1087, 1086, 1083, 1085, 1103, 1090, 1100,
          32, 1079, 1072, 1076, 1072, 1095, 1080, 32, 1073, 1099, 1089, 1090, 1088, 1086,
          32, 1080, 32, 1073, 1077, 1079, 32, 1083, 1080, 1096, 1085, 1080, 1093, 32, 1082,
          1083, 1080, 1082, 1086, 1074, 46] \<rparr>"

text \<open>The dictionary itself, in the order of insertion.\<close>

definition PERSONAS :: "(ustr \<times> persona) list" where
  "PERSONAS =
     [(str ''student'', student_persona),
      (str ''applicant'', applicant_persona),
      (str ''teacher'', teacher_persona)]"

section \<open>Directories\<close>

text \<open>
  A path is the list of its components below the filesystem root, and a filesystem maps
  paths to nodes. A directory carries whether the process may create entries in it, a
  file whether the process may write to it. An entry is reachable when every proper
  prefix of its path is a directory; symbolic links are not modelled.
\<close>

datatype node = File bool | Dir bool

type_synonym filesystem = "path \<rightharpoonup> node"

text \<open>\<^verbatim>\<open>Path.parent\<close>: the parent of the root is the root.\<close>

definition parent :: "path \<Rightarrow> path" where
  "parent p = butlast p"

definition proper_prefixes :: "path \<Rightarrow> path list" where
  "proper_prefixes p = map (\<lambda>n. take n p) [0..<length p]"

definition is_dir_node :: "node option \<Rightarrow> bool" where
  "is_dir_node n = (case n of Some (Dir w) \<Rightarrow> True | _ \<Rightarrow> False)"

text \<open>
  Resolving the directory part of a path fails at the first component that is missing
  (\<open>ENOENT\<close>) or is not a directory (\<open>ENOTDIR\<close>).
\<close>

definition resolve_error :: "filesystem \<Rightarrow> path \<Rightarrow> errno option" where
  "resolve_error fs p =
     (case List.find (\<lambda>q. \<not> is_dir_node (fs q)) (proper_prefixes p) of
        None \<Rightarrow> None
      | Some q \<Rightarrow> (case fs q of None \<Rightarrow> Some ENOENT | Some n \<Rightarrow> Some ENOTDIR))"

text \<open>\<^verbatim>\<open>Path.is_dir()\<close>: false when the path cannot be resolved.\<close>

definition is_dir :: "filesystem \<Rightarrow> path \<Rightarrow> bool" where
  "is_dir fs p = (resolve_error fs p = None \<and> is_dir_node (fs p))"

text \<open>
  \<^verbatim>\<open>os.mkdir(path)\<close>: the system call creates one directory, which the process may
  then write to, and fails when the path cannot be resolved, when the entry exists and
  when the parent directory is not writable.
\<close>

definition os_mkdir :: "filesystem \<Rightarrow> path \<Rightarrow> exn + filesystem" where
  "os_mkdir fs p =
     (case resolve_error fs p of
        Some e \<Rightarrow> Inl (OSError e p)
      | None \<Rightarrow>
          (case fs p of
             Some n \<Rightarrow> Inl (OSError EEXIST p)
           | None \<Rightarrow>
               (case fs (parent p) of
                  Some (Dir w) \<Rightarrow> if w then Inr (fs(p \<mapsto> Dir True)) else Inl (OSError EACCES p)
                | _ \<Rightarrow> Inl (OSError ENOENT p))))"

text \<open>
  \<^verbatim>\<open>Path.mkdir(parents, exist_ok)\<close> of pathlib: \<^verbatim>\<open>FileNotFoundError\<close> is the error
  \<open>ENOENT\<close>, every other \<^verbatim>\<open>OSError\<close> is forgiven when \<^verbatim>\<open>exist_ok\<close> holds and the path
  is a directory.
\<close>

function mkdir :: "filesystem \<Rightarrow> path \<Rightarrow> bool \<Rightarrow> bool \<Rightarrow> exn + filesystem" where
  "mkdir fs p parents exist_ok =
     (case os_mkdir fs p of
        Inr fs' \<Rightarrow> Inr fs'
      | Inl (OSError ENOENT q) \<Rightarrow>
          if \<not> parents \<or> parent p = p then Inl (OSError ENOENT q)
          else (case mkdir fs (parent p) True True of
                  Inl e \<Rightarrow> Inl e
                | Inr fs1 \<Rightarrow> mkdir fs1 p False exist_ok)
      | Inl e \<Rightarrow> if \<not> exist_ok \<or> \<not> is_dir fs p then Inl e else Inr fs)"
  by pat_completeness auto
termination
proof (relation "measure (\<lambda>(fs, p, parents, exist_ok). 2 * length p + (if parents then 1 else 0))")
  fix fs :: filesystem and p :: path and parents :: bool
  assume "\<not> (\<not> parents \<or> parent p = p)"
  then have "p \<noteq> []" and "parents"
    by (auto simp: parent_def)
  then show "((fs, parent p, True, True), fs, p, parents, exist_ok)
               \<in> measure (\<lambda>(fs, p, parents, exist_ok). 2 * length p + (if parents then 1 else 0))"
    for exist_ok :: bool
    by (cases p) (auto simp: parent_def)
qed auto

declare mkdir.simps [simp del]

text \<open>Lines 13 to 22, for the project root \<^verbatim>\<open>ROOT_DIR\<close>.\<close>

definition DATA_DIR :: "path \<Rightarrow> path" where
  "DATA_DIR ROOT_DIR = ROOT_DIR @ [str ''data'']"

definition SCREENSHOTS_DIR :: "path \<Rightarrow> path" where
  "SCREENSHOTS_DIR ROOT_DIR = DATA_DIR ROOT_DIR @ [str ''screenshots'']"

definition REPORTS_DIR :: "path \<Rightarrow> path" where
  "REPORTS_DIR ROOT_DIR = DATA_DIR ROOT_DIR @ [str ''reports'']"

definition LOGS_DIR :: "path \<Rightarrow> path" where
  "LOGS_DIR ROOT_DIR = ROOT_DIR @ [str ''logs'']"

definition establish_directories :: "path \<Rightarrow> filesystem \<Rightarrow> exn + filesystem" where
  "establish_directories ROOT_DIR fs =
     bind (mkdir fs (SCREENSHOTS_DIR ROOT_DIR) True True) (\<lambda>fs1.
     bind (mkdir fs1 (REPORTS_DIR ROOT_DIR) True True) (\<lambda>fs2.
     mkdir fs2 (LOGS_DIR ROOT_DIR) True True))"

section \<open>Logging\<close>

text \<open>
  Lines 60 to 70. \<^verbatim>\<open>logging.FileHandler(LOG_FILE, encoding="utf-8")\<close> opens the log file
  for appending, creating it when it is missing.
\<close>

definition LOG_FILE :: "path \<Rightarrow> path" where
  "LOG_FILE ROOT_DIR = LOGS_DIR ROOT_DIR @ [str ''audit.log'']"

definition open_append :: "filesystem \<Rightarrow> path \<Rightarrow> exn + filesystem" where
  "open_append fs p =
     (case resolve_error fs p of
        Some e \<Rightarrow> Inl (OSError e p)
      | None \<Rightarrow>
          (case fs p of
             Some (Dir w) \<Rightarrow> Inl (OSError EISDIR p)
           | Some (File w) \<Rightarrow> if w then Inr fs else Inl (OSError EACCES p)
           | None \<Rightarrow>
               (case fs (parent p) of
                  Some (Dir w) \<Rightarrow> if w then Inr (fs(p \<mapsto> File True)) else Inl (OSError EACCES p)
                | _ \<Rightarrow> Inl (OSError ENOENT p))))"

text \<open>
  The logging library is not part of the repository, so what the load needs of it is a
  parameter: the attributes of the module \<^verbatim>\<open>logging\<close>, each as far as the library's level
  check tells values apart (an \<^verbatim>\<open>int\<close>, \<^verbatim>\<open>bool\<close> included; a \<^verbatim>\<open>str\<close>; anything else, such
  as a function or a class), and whether the root logger has handlers already.
\<close>

datatype pyobj = PyInt int | PyStr ustr | PyObject

record logging_state =
  logging_attributes :: "ustr \<rightharpoonup> pyobj"
  root_has_handlers :: bool

text \<open>\<^verbatim>\<open>getattr(logging, name, default)\<close>.\<close>

definition getattr :: "(ustr \<rightharpoonup> pyobj) \<Rightarrow> ustr \<Rightarrow> pyobj \<Rightarrow> pyobj" where
  "getattr attributes attr dflt = (case attributes attr of None \<Rightarrow> dflt | Some v \<Rightarrow> v)"

text \<open>The library's table of level names and its check of a level.\<close>

definition nameToLevel :: "(ustr \<times> int) list" where
  "nameToLevel =
     [(str ''CRITICAL'', 50), (str ''FATAL'', 50), (str ''ERROR'', 40), (str ''WARN'', 30),
      (str ''WARNING'', 30), (str ''INFO'', 20), (str ''DEBUG'', 10), (str ''NOTSET'', 0)]"

definition checkLevel :: "pyobj \<Rightarrow> exn + int" where
  "checkLevel level =
     (case level of
        PyInt n \<Rightarrow> Inr n
      | PyStr s \<Rightarrow>
          (case map_of nameToLevel s of
             None \<Rightarrow> Inl (ValueError (UnknownLevel s))
           | Some n \<Rightarrow> Inr n)
      | PyObject \<Rightarrow> Inl TypeError)"

text \<open>
  \<^verbatim>\<open>logging.basicConfig(level=..., format=..., handlers=[...])\<close> does nothing when the
  root logger has handlers, and otherwise installs the handlers and sets the level.
\<close>

definition basicConfig :: "bool \<Rightarrow> pyobj \<Rightarrow> exn + unit" where
  "basicConfig has_handlers level =
     (if has_handlers then Inr () else bind (checkLevel level) (\<lambda>n. Inr ()))"

text \<open>
  The arguments of the call are evaluated first, left to right: the level, then the
  file handler, which opens the log file.
\<close>

definition configure_logging ::
  "logging_state \<Rightarrow> path \<Rightarrow> ustr \<Rightarrow> filesystem \<Rightarrow> exn + filesystem" where
  "configure_logging lg ROOT_DIR log_level fs =
     (let level = getattr (logging_attributes lg) log_level (PyInt 20)
      in bind (open_append fs (LOG_FILE ROOT_DIR)) (\<lambda>fs'.
         bind (basicConfig (root_has_handlers lg) level) (\<lambda>u. Inr fs')))"

text \<open>
  A part of the attributes of CPython's \<^verbatim>\<open>logging\<close>: the level constants are integers,
  the functions of the same names in lower case are not.
\<close>

definition cpython_logging :: logging_state where
  "cpython_logging =
     \<lparr> logging_attributes =
         [str ''CRITICAL'' \<mapsto> PyInt 50, str ''ERROR'' \<mapsto> PyInt 40, str ''WARNING'' \<mapsto> PyInt 30,
          str ''INFO'' \<mapsto> PyInt 20, str ''DEBUG'' \<mapsto> PyInt 10, str ''NOTSET'' \<mapsto> PyInt 0,
          str ''critical'' \<mapsto> PyObject, str ''error'' \<mapsto> PyObject,
          str ''warning'' \<mapsto> PyObject, str ''info'' \<mapsto> PyObject, str ''debug'' \<mapsto> PyObject,
          str ''BASIC_FORMAT'' \<mapsto> PyStr (str ''%(levelname)s:%(name)s:%(message)s'')],
       root_has_handlers = False \<rparr>"

section \<open>Loading the module\<close>

text \<open>
  Importing the module establishes the directories, resolves the settings and
  configures the logging; the first exception ends the load.
\<close>

definition module_load ::
  "logging_state \<Rightarrow> path \<Rightarrow> environ \<Rightarrow> filesystem \<Rightarrow> exn + filesystem \<times> config" where
  "module_load lg ROOT_DIR env fs =
     bind (establish_directories ROOT_DIR fs) (\<lambda>fs1.
     bind (load_settings env) (\<lambda>cfg.
     bind (configure_logging lg ROOT_DIR (LOG_LEVEL cfg) fs1) (\<lambda>fs2.
     Inr (fs2, cfg))))"

section \<open>Auxiliary lemmas\<close>

subsection \<open>Results and the builtin \<^verbatim>\<open>int\<close>\<close>

lemma bind_Inr_iff: "bind r f = Inr y \<longleftrightarrow> (\<exists>x. r = Inr x \<and> f x = Inr y)"
  by (cases r) (simp_all add: bind_def)

lemma bind_Inl_iff: "bind r f = Inl e \<longleftrightarrow> r = Inl e \<or> (\<exists>x. r = Inr x \<and> f x = Inl e)"
  by (cases r) (simp_all add: bind_def)

lemmas python_int_eval =
  python_int_def str_def to_ascii_def Py_ISSPACE_def digit_or_underscore_def is_digit_def
  digits_value_def int_max_str_digits_def

lemma default_literals:
  "python_int (str ''15'') = Inr 15"
  "python_int (str ''30000'') = Inr 30000"
  "python_int (str ''1920'') = Inr 1920"
  "python_int (str ''1080'') = Inr 1080"
  "python_int (str ''100'') = Inr 100"
  "python_int (str ''2000'') = Inr 2000"
  by (simp_all add: python_int_eval)

lemma python_int_error: "python_int v = Inl e \<Longrightarrow> \<exists>ve. e = ValueError ve \<and> (\<forall>m. ve \<noteq> Message m)"
  by (auto simp: python_int_def Let_def split: if_splits)

text \<open>
  A string that \<^verbatim>\<open>int\<close> accepts consists, after the replacement of the code points from
  127 on, of whitespace, signs, digits and underscores only. So an ASCII character of
  any other kind, a letter for one, makes \<^verbatim>\<open>int\<close> raise wherever it stands.
\<close>

lemma python_int_Inr_chars:
  assumes "python_int s = Inr n" and "c \<in> set (map to_ascii s)"
  shows "Py_ISSPACE c \<or> c = 43 \<or> c = 45 \<or> digit_or_underscore c"
proof -
  define t where "t = map to_ascii s"
  define xs where "xs = dropWhile Py_ISSPACE t"
  define ys where "ys = (case xs of [] \<Rightarrow> [] | c # cs \<Rightarrow> if c = 43 \<or> c = 45 then cs else c # cs)"
  define rest where "rest = dropWhile digit_or_underscore ys"
  from assms(1) have "dropWhile Py_ISSPACE rest = []"
    unfolding python_int_def Let_def t_def [symmetric] xs_def [symmetric] ys_def [symmetric]
      rest_def [symmetric]
    by (simp split: if_splits)
  then have rest: "\<forall>x \<in> set rest. Py_ISSPACE x"
    by (simp add: dropWhile_eq_Nil_conv)
  have "ys = takeWhile digit_or_underscore ys @ rest"
    by (simp add: rest_def)
  then have "set ys = set (takeWhile digit_or_underscore ys) \<union> set rest"
    by (metis set_append)
  with rest have ys: "\<forall>x \<in> set ys. digit_or_underscore x \<or> Py_ISSPACE x"
    by (auto dest: set_takeWhileD)
  have xs: "\<forall>x \<in> set xs. x = 43 \<or> x = 45 \<or> digit_or_underscore x \<or> Py_ISSPACE x"
    using ys by (cases xs) (auto simp: ys_def split: if_splits)
  have "t = takeWhile Py_ISSPACE t @ xs"
    by (simp add: xs_def)
  then have "set t = set (takeWhile Py_ISSPACE t) \<union> set xs"
    by (metis set_append)
  with xs have "\<forall>x \<in> set t. x = 43 \<or> x = 45 \<or> digit_or_underscore x \<or> Py_ISSPACE x"
    by (auto dest: set_takeWhileD)
  with assms(2) show ?thesis
    by (auto simp: t_def)
qed

lemma non_numeric_character_rejected:
  assumes "c \<in> set s" and "c < 127"
    and "\<not> (Py_ISSPACE c \<or> c = 43 \<or> c = 45 \<or> digit_or_underscore c)"
  shows "isl (python_int s)"
proof (cases "python_int s")
  case (Inl e)
  then show ?thesis by simp
next
  case (Inr n)
  from assms(1,2) have "c \<in> set (map to_ascii s)"
    by (force simp: to_ascii_def)
  from python_int_Inr_chars [OF Inr this] assms(3) show ?thesis
    by simp
qed

subsection \<open>Loading the settings\<close>

lemma load_settings_Inr:
  assumes "load_settings env = Inr cfg"
  shows "OPENAI_API_KEY cfg = env (str ''OPENAI_API_KEY'')"
    and "OPENAI_MODEL cfg = getenv env (str ''OPENAI_MODEL'') (str ''gpt-5-mini'')"
    and "GEMINI_API_KEY cfg = env (str ''GEMINI_API_KEY'')"
    and "GEMINI_MODEL cfg = getenv env (str ''GEMINI_MODEL'') (str ''gemini-1.5-pro'')"
    and "DEEPSEEK_API_KEY cfg = env (str ''DEEPSEEK_API_KEY'')"
    and "DEEPSEEK_MODEL cfg = getenv env (str ''DEEPSEEK_MODEL'') (str ''deepseek-chat'')"
    and "DEEPSEEK_BASE_URL cfg = getenv env (str ''DEEPSEEK_BASE_URL'') (str ''https://api.deepseek.com'')"
    and "python_int (getenv env (str ''MAX_STEPS'') (str ''15'')) = Inr (MAX_STEPS cfg)"
    and "python_int (getenv env (str ''SCREENSHOT_TIMEOUT'') (str ''30000'')) = Inr (SCREENSHOT_TIMEOUT cfg)"
    and "python_int (getenv env (str ''DEFAULT_VIEWPORT_WIDTH'') (str ''1920'')) = Inr (DEFAULT_VIEWPORT_WIDTH cfg)"
    and "python_int (getenv env (str ''DEFAULT_VIEWPORT_HEIGHT'') (str ''1080'')) = Inr (DEFAULT_VIEWPORT_HEIGHT cfg)"
    and "python_int (getenv env (str ''GRID_SIZE'') (str ''100'')) = Inr (GRID_SIZE cfg)"
    and "GRID_COLOR cfg = getenv env (str ''GRID_COLOR'') (str ''rgba(255,0,0,0.3)'')"
    and "python_int (getenv env (str ''NAVIGATION_TIMEOUT'') (str ''30000'')) = Inr (NAVIGATION_TIMEOUT cfg)"
    and "python_int (getenv env (str ''PAGE_LOAD_WAIT'') (str ''2000'')) = Inr (PAGE_LOAD_WAIT cfg)"
    and "LOG_LEVEL cfg = getenv env (str ''LOG_LEVEL'') (str ''INFO'')"
  using assms unfolding load_settings_def bind_Inr_iff by auto

lemma load_settings_Inl:
  assumes "load_settings env = Inl e"
  shows "python_int (getenv env (str ''MAX_STEPS'') (str ''15'')) = Inl e
    \<or> python_int (getenv env (str ''SCREENSHOT_TIMEOUT'') (str ''30000'')) = Inl e
    \<or> python_int (getenv env (str ''DEFAULT_VIEWPORT_WIDTH'') (str ''1920'')) = Inl e
    \<or> python_int (getenv env (str ''DEFAULT_VIEWPORT_HEIGHT'') (str ''1080'')) = Inl e
    \<or> python_int (getenv env (str ''GRID_SIZE'') (str ''100'')) = Inl e
    \<or> python_int (getenv env (str ''NAVIGATION_TIMEOUT'') (str ''30000'')) = Inl e
    \<or> python_int (getenv env (str ''PAGE_LOAD_WAIT'') (str ''2000'')) = Inl e"
  using assms unfolding load_settings_def bind_Inl_iff by auto

lemma load_settings_total:
  assumes "python_int (getenv env (str ''MAX_STEPS'') (str ''15'')) = Inr a"
    and "python_int (getenv env (str ''SCREENSHOT_TIMEOUT'') (str ''30000'')) = Inr b"
    and "python_int (getenv env (str ''DEFAULT_VIEWPORT_WIDTH'') (str ''1920'')) = Inr c"
    and "python_int (getenv env (str ''DEFAULT_VIEWPORT_HEIGHT'') (str ''1080'')) = Inr d"
    and "python_int (getenv env (str ''GRID_SIZE'') (str ''100'')) = Inr g"
    and "python_int (getenv env (str ''NAVIGATION_TIMEOUT'') (str ''30000'')) = Inr h"
    and "python_int (getenv env (str ''PAGE_LOAD_WAIT'') (str ''2000'')) = Inr i"
  shows "\<exists>cfg. load_settings env = Inr cfg"
  using assms unfolding load_settings_def by (simp add: bind_def)

lemma numeric_settings_cases:
  assumes "k \<in> set numeric_settings"
  shows "k = str ''MAX_STEPS'' \<or> k = str ''SCREENSHOT_TIMEOUT''
    \<or> k = str ''DEFAULT_VIEWPORT_WIDTH'' \<or> k = str ''DEFAULT_VIEWPORT_HEIGHT''
    \<or> k = str ''GRID_SIZE'' \<or> k = str ''NAVIGATION_TIMEOUT'' \<or> k = str ''PAGE_LOAD_WAIT''"
  using assms by (simp add: numeric_settings_def)

lemma load_settings_rejects:
  assumes "k \<in> set numeric_settings" and "env k = Some v" and "isl (python_int v)"
  shows "isl (load_settings env)"
proof (cases "load_settings env")
  case (Inl e)
  then show ?thesis by simp
next
  case (Inr cfg)
  from numeric_settings_cases [OF assms(1)] load_settings_Inr [OF Inr] assms(2,3)
  show ?thesis
    by (auto simp: getenv_def)
qed

lemma load_settings_error_source:
  assumes "load_settings env = Inl e"
  shows "\<exists>k v. k \<in> set numeric_settings \<and> env k = Some v \<and> python_int v = Inl e"
proof -
  have *: "\<exists>v. env k = Some v \<and> python_int v = Inl e"
    if "python_int (getenv env k d) = Inl e" and "python_int d = Inr n" for k d n
    using that by (cases "env k") (auto simp: getenv_def)
  from load_settings_Inl [OF assms] show ?thesis
    by (elim disjE) (drule *, rule default_literals, force simp: numeric_settings_def)+
qed

lemma valid_numeric_settings_parses:
  assumes "valid_numeric_settings env" and "k \<in> set numeric_settings" and "python_int d = Inr n0"
  shows "\<exists>n. python_int (getenv env k d) = Inr n"
proof (cases "env k")
  case None
  with assms(3) show ?thesis
    by (simp add: getenv_def)
next
  case (Some v)
  from assms(1,2) have "case env k of None \<Rightarrow> True | Some v \<Rightarrow> \<not> isl (python_int v)"
    unfolding valid_numeric_settings_def list_all_iff by blast
  with Some have "\<not> isl (python_int v)"
    by simp
  then obtain n where "python_int v = Inr n"
    by (cases "python_int v") auto
  with Some show ?thesis
    by (simp add: getenv_def)
qed

lemma valid_numeric_settings_loads:
  assumes "valid_numeric_settings env"
  shows "\<exists>cfg. load_settings env = Inr cfg"
proof -
  note p = valid_numeric_settings_parses [OF assms]
  from p [OF _ default_literals(1), of "str ''MAX_STEPS''"]
  obtain a where a: "python_int (getenv env (str ''MAX_STEPS'') (str ''15'')) = Inr a"
    by (auto simp: numeric_settings_def)
  from p [OF _ default_literals(2), of "str ''SCREENSHOT_TIMEOUT''"]
  obtain b where b: "python_int (getenv env (str ''SCREENSHOT_TIMEOUT'') (str ''30000'')) = Inr b"
    by (auto simp: numeric_settings_def)
  from p [OF _ default_literals(3), of "str ''DEFAULT_VIEWPORT_WIDTH''"]
  obtain c where c: "python_int (getenv env (str ''DEFAULT_VIEWPORT_WIDTH'') (str ''1920'')) = Inr c"
    by (auto simp: numeric_settings_def)
  from p [OF _ default_literals(4), of "str ''DEFAULT_VIEWPORT_HEIGHT''"]
  obtain d where d: "python_int (getenv env (str ''DEFAULT_VIEWPORT_HEIGHT'') (str ''1080'')) = Inr d"
    by (auto simp: numeric_settings_def)
  from p [OF _ default_literals(5), of "str ''GRID_SIZE''"]
  obtain g where g: "python_int (getenv env (str ''GRID_SIZE'') (str ''100'')) = Inr g"
    by (auto simp: numeric_settings_def)
  from p [OF _ default_literals(2), of "str ''NAVIGATION_TIMEOUT''"]
  obtain h where h: "python_int (getenv env (str ''NAVIGATION_TIMEOUT'') (str ''30000'')) = Inr h"
    by (auto simp: numeric_settings_def)
  from p [OF _ default_literals(6), of "str ''PAGE_LOAD_WAIT''"]
  obtain i where i: "python_int (getenv env (str ''PAGE_LOAD_WAIT'') (str ''2000'')) = Inr i"
    by (auto simp: numeric_settings_def)
  from a b c d g h i show ?thesis
    by (rule load_settings_total)
qed

lemma load_settings_precedence:
  assumes "load_settings env = Inr cfg"
  shows "OPENAI_API_KEY cfg =
           (case env (str ''OPENAI_API_KEY'') of
              None \<Rightarrow> OPENAI_API_KEY documented_defaults | Some v \<Rightarrow> Some v)"
    and "OPENAI_MODEL cfg =
           (case env (str ''OPENAI_MODEL'') of
              None \<Rightarrow> OPENAI_MODEL documented_defaults | Some v \<Rightarrow> v)"
    and "GEMINI_API_KEY cfg =
           (case env (str ''GEMINI_API_KEY'') of
              None \<Rightarrow> GEMINI_API_KEY documented_defaults | Some v \<Rightarrow> Some v)"
    and "GEMINI_MODEL cfg =
           (case env (str ''GEMINI_MODEL'') of
              None \<Rightarrow> GEMINI_MODEL documented_defaults | Some v \<Rightarrow> v)"
    and "DEEPSEEK_API_KEY cfg =
           (case env (str ''DEEPSEEK_API_KEY'') of
              None \<Rightarrow> DEEPSEEK_API_KEY documented_defaults | Some v \<Rightarrow> Some v)"
    and "DEEPSEEK_MODEL cfg =
           (case env (str ''DEEPSEEK_MODEL'') of
              None \<Rightarrow> DEEPSEEK_MODEL documented_defaults | Some v \<Rightarrow> v)"
    and "DEEPSEEK_BASE_URL cfg =
           (case env (str ''DEEPSEEK_BASE_URL'') of
              None \<Rightarrow> DEEPSEEK_BASE_URL documented_defaults | Some v \<Rightarrow> v)"
    and "GRID_COLOR cfg =
           (case env (str ''GRID_COLOR'') of
              None \<Rightarrow> GRID_COLOR documented_defaults | Some v \<Rightarrow> v)"
    and "LOG_LEVEL cfg =
           (case env (str ''LOG_LEVEL'') of
              None \<Rightarrow> LOG_LEVEL documented_defaults | Some v \<Rightarrow> v)"
proof -
  note f = load_settings_Inr [OF assms]
  show "OPENAI_API_KEY cfg =
           (case env (str ''OPENAI_API_KEY'') of
              None \<Rightarrow> OPENAI_API_KEY documented_defaults | Some v \<Rightarrow> Some v)"
    using f(1) by (simp add: getenv_def documented_defaults_def split: option.splits)
  show "OPENAI_MODEL cfg =
           (case env (str ''OPENAI_MODEL'') of
              None \<Rightarrow> OPENAI_MODEL documented_defaults | Some v \<Rightarrow> v)"
    using f(2) by (simp add: getenv_def documented_defaults_def split: option.splits)
  show "GEMINI_API_KEY cfg =
           (case env (str ''GEMINI_API_KEY'') of
              None \<Rightarrow> GEMINI_API_KEY documented_defaults | Some v \<Rightarrow> Some v)"
    using f(3) by (simp add: getenv_def documented_defaults_def split: option.splits)
  show "GEMINI_MODEL cfg =
           (case env (str ''GEMINI_MODEL'') of
              None \<Rightarrow> GEMINI_MODEL documented_defaults | Some v \<Rightarrow> v)"
    using f(4) by (simp add: getenv_def documented_defaults_def split: option.splits)
  show "DEEPSEEK_API_KEY cfg =
           (case env (str ''DEEPSEEK_API_KEY'') of
              None \<Rightarrow> DEEPSEEK_API_KEY documented_defaults | Some v \<Rightarrow> Some v)"
    using f(5) by (simp add: getenv_def documented_defaults_def split: option.splits)
  show "DEEPSEEK_MODEL cfg =
           (case env (str ''DEEPSEEK_MODEL'') of
              None \<Rightarrow> DEEPSEEK_MODEL documented_defaults | Some v \<Rightarrow> v)"
    using f(6) by (simp add: getenv_def documented_defaults_def split: option.splits)
  show "DEEPSEEK_BASE_URL cfg =
           (case env (str ''DEEPSEEK_BASE_URL'') of
              None \<Rightarrow> DEEPSEEK_BASE_URL documented_defaults | Some v \<Rightarrow> v)"
    using f(7) by (simp add: getenv_def documented_defaults_def split: option.splits)
  show "GRID_COLOR cfg =
           (case env (str ''GRID_COLOR'') of
              None \<Rightarrow> GRID_COLOR documented_defaults | Some v \<Rightarrow> v)"
    using f(13) by (simp add: getenv_def documented_defaults_def split: option.splits)
  show "LOG_LEVEL cfg =
           (case env (str ''LOG_LEVEL'') of
              None \<Rightarrow> LOG_LEVEL documented_defaults | Some v \<Rightarrow> v)"
    using f(16) by (simp add: getenv_def documented_defaults_def split: option.splits)
qed

lemma load_settings_numeric_precedence:
  assumes "load_settings env = Inr cfg"
  shows "case env (str ''MAX_STEPS'') of
           None \<Rightarrow> MAX_STEPS cfg = MAX_STEPS documented_defaults
         | Some v \<Rightarrow> python_int v = Inr (MAX_STEPS cfg)"
    and "case env (str ''SCREENSHOT_TIMEOUT'') of
           None \<Rightarrow> SCREENSHOT_TIMEOUT cfg = SCREENSHOT_TIMEOUT documented_defaults
         | Some v \<Rightarrow> python_int v = Inr (SCREENSHOT_TIMEOUT cfg)"
    and "case env (str ''DEFAULT_VIEWPORT_WIDTH'') of
           None \<Rightarrow> DEFAULT_VIEWPORT_WIDTH cfg = DEFAULT_VIEWPORT_WIDTH documented_defaults
         | Some v \<Rightarrow> python_int v = Inr (DEFAULT_VIEWPORT_WIDTH cfg)"
    and "case env (str ''DEFAULT_VIEWPORT_HEIGHT'') of
           None \<Rightarrow> DEFAULT_VIEWPORT_HEIGHT cfg = DEFAULT_VIEWPORT_HEIGHT documented_defaults
         | Some v \<Rightarrow> python_int v = Inr (DEFAULT_VIEWPORT_HEIGHT cfg)"
    and "case env (str ''GRID_SIZE'') of
           None \<Rightarrow> GRID_SIZE cfg = GRID_SIZE documented_defaults
         | Some v \<Rightarrow> python_int v = Inr (GRID_SIZE cfg)"
    and "case env (str ''NAVIGATION_TIMEOUT'') of
           None \<Rightarrow> NAVIGATION_TIMEOUT cfg = NAVIGATION_TIMEOUT documented_defaults
         | Some v \<Rightarrow> python_int v = Inr (NAVIGATION_TIMEOUT cfg)"
    and "case env (str ''PAGE_LOAD_WAIT'') of
           None \<Rightarrow> PAGE_LOAD_WAIT cfg = PAGE_LOAD_WAIT documented_defaults
         | Some v \<Rightarrow> python_int v = Inr (PAGE_LOAD_WAIT cfg)"
proof -
  note f = load_settings_Inr [OF assms]
  show "case env (str ''MAX_STEPS'') of
           None \<Rightarrow> MAX_STEPS cfg = MAX_STEPS documented_defaults
         | Some v \<Rightarrow> python_int v = Inr (MAX_STEPS cfg)"
    using f(8) default_literals(1)
    by (simp add: getenv_def documented_defaults_def split: option.splits)
  show "case env (str ''SCREENSHOT_TIMEOUT'') of
           None \<Rightarrow> SCREENSHOT_TIMEOUT cfg = SCREENSHOT_TIMEOUT documented_defaults
         | Some v \<Rightarrow> python_int v = Inr (SCREENSHOT_TIMEOUT cfg)"
    using f(9) default_literals(2)
    by (simp add: getenv_def documented_defaults_def split: option.splits)
  show "case env (str ''DEFAULT_VIEWPORT_WIDTH'') of
           None \<Rightarrow> DEFAULT_VIEWPORT_WIDTH cfg = DEFAULT_VIEWPORT_WIDTH documented_defaults
         | Some v \<Rightarrow> python_int v = Inr (DEFAULT_VIEWPORT_WIDTH cfg)"
    using f(10) default_literals(3)
    by (simp add: getenv_def documented_defaults_def split: option.splits)
  show "case env (str ''DEFAULT_VIEWPORT_HEIGHT'') of
           None \<Rightarrow> DEFAULT_VIEWPORT_HEIGHT cfg = DEFAULT_VIEWPORT_HEIGHT documented_defaults
         | Some v \<Rightarrow> python_int v = Inr (DEFAULT_VIEWPORT_HEIGHT cfg)"
    using f(11) default_literals(4)
    by (simp add: getenv_def documented_defaults_def split: option.splits)
  show "case env (str ''GRID_SIZE'') of
           None \<Rightarrow> GRID_SIZE cfg = GRID_SIZE documented_defaults
         | Some v \<Rightarrow> python_int v = Inr (GRID_SIZE cfg)"
    using f(12) default_literals(5)
    by (simp add: getenv_def documented_defaults_def split: option.splits)
  show "case env (str ''NAVIGATION_TIMEOUT'') of
           None \<Rightarrow> NAVIGATION_TIMEOUT cfg = NAVIGATION_TIMEOUT documented_defaults
         | Some v \<Rightarrow> python_int v = Inr (NAVIGATION_TIMEOUT cfg)"
    using f(14) default_literals(2)
    by (simp add: getenv_def documented_defaults_def split: option.splits)
  show "case env (str ''PAGE_LOAD_WAIT'') of
           None \<Rightarrow> PAGE_LOAD_WAIT cfg = PAGE_LOAD_WAIT documented_defaults
         | Some v \<Rightarrow> python_int v = Inr (PAGE_LOAD_WAIT cfg)"
    using f(15) default_literals(6)
    by (simp add: getenv_def documented_defaults_def split: option.splits)
qed

lemma empty_environment_loads_defaults: "load_settings Map.empty = Inr documented_defaults"
  by (simp add: load_settings_def getenv_def default_literals bind_def documented_defaults_def)


subsection \<open>What \<^verbatim>\<open>validate_config\<close> prints and raises\<close>

text \<open>
  On a stream that takes the warning lines the call prints the warnings and decides by
  the mandatory key alone.
\<close>

lemma utf8_stdout_encodes_warnings: "encodes_warnings utf8_stdout"
proof -
  have "\<not> list_ex (\<lambda>c. 55296 \<le> c \<and> c \<le> 57343) s"
    if "list_all (\<lambda>c. c < 128 \<or> c = 9888) s" for s :: ustr
  proof
    assume "list_ex (\<lambda>c. 55296 \<le> c \<and> c \<le> 57343) s"
    then obtain c where c: "c \<in> set s" "55296 \<le> c" "c \<le> 57343"
      by (auto simp: list_ex_iff)
    with that have "c < 128 \<or> c = 9888"
      by (auto simp: list_all_iff)
    with c show False
      by auto
  qed
  then show ?thesis
    by (simp add: encodes_warnings_def utf8_stdout_def)
qed

lemma warning_lines_print:
  assumes "encodes_warnings out"
  shows "out (9888 # str '' Warnings: GEMINI_API_KEY is not set (optional fallback)'') = None"
    and "out (9888 # str '' Warnings: DEEPSEEK_API_KEY is not set (optional auxiliary LLM)'') = None"
    and "out (9888 # str '' Warnings: GEMINI_API_KEY is not set (optional fallback), DEEPSEEK_API_KEY is not set (optional auxiliary LLM)'') = None"
  by (rule assms [unfolded encodes_warnings_def, rule_format], simp add: str_def)+

lemma validate_config_stdout:
  assumes "encodes_warnings out"
  shows "fst (validate_config out cfg) =
    (if falsy (GEMINI_API_KEY cfg)
     then if falsy (DEEPSEEK_API_KEY cfg)
       then [9888 # str '' Warnings: GEMINI_API_KEY is not set (optional fallback), DEEPSEEK_API_KEY is not set (optional auxiliary LLM)'']
       else [9888 # str '' Warnings: GEMINI_API_KEY is not set (optional fallback)'']
     else if falsy (DEEPSEEK_API_KEY cfg)
       then [9888 # str '' Warnings: DEEPSEEK_API_KEY is not set (optional auxiliary LLM)'']
       else [])"
  using warning_lines_print [OF assms]
  by (cases "falsy (GEMINI_API_KEY cfg)"; cases "falsy (DEEPSEEK_API_KEY cfg)")
    (simp_all add: validate_config_def print_def str_def)

lemma validate_config_outcome:
  assumes "encodes_warnings out"
  shows "snd (validate_config out cfg) =
    (if falsy (OPENAI_API_KEY cfg)
     then Inl (ValueError (Message
            (str ''Configuration errors: OPENAI_API_KEY is not set (required for primary LLM)'')))
     else Inr ())"
  using warning_lines_print [OF assms]
  by (cases "falsy (GEMINI_API_KEY cfg)"; cases "falsy (DEEPSEEK_API_KEY cfg)")
    (simp_all add: validate_config_def print_def str_def)

lemma gemini_warning:
  assumes "encodes_warnings out" and "falsy (GEMINI_API_KEY cfg)"
  shows "\<exists>line \<in> set (fst (validate_config out cfg)).
           contains line (str ''GEMINI_API_KEY is not set (optional fallback)'')"
  unfolding validate_config_stdout [OF assms(1)] using assms(2)
  by (simp add: str_def)

lemma deepseek_warning:
  assumes "encodes_warnings out" and "falsy (DEEPSEEK_API_KEY cfg)"
  shows "\<exists>line \<in> set (fst (validate_config out cfg)).
           contains line (str ''DEEPSEEK_API_KEY is not set (optional auxiliary LLM)'')"
  unfolding validate_config_stdout [OF assms(1)] using assms(2)
  by (simp add: str_def)

text \<open>
  Whatever the stream, the call does not return normally when the mandatory key is
  missing.
\<close>

lemma validate_config_raises_when_key_missing:
  assumes "falsy (OPENAI_API_KEY cfg)"
  shows "isl (snd (validate_config out cfg))"
  using assms by (simp add: validate_config_def print_def Let_def split: sum.splits option.splits)

subsection \<open>The filesystem\<close>

lemma resolve_error_None_iff:
  "resolve_error fs q = None \<longleftrightarrow> (\<forall>x \<in> set (proper_prefixes q). is_dir_node (fs x))"
proof (cases "List.find (\<lambda>x. \<not> is_dir_node (fs x)) (proper_prefixes q)")
  case None
  then have "\<forall>x \<in> set (proper_prefixes q). is_dir_node (fs x)"
    by (simp add: find_None_iff)
  with None show ?thesis
    by (simp add: resolve_error_def)
next
  case (Some x)
  then have "x \<in> set (proper_prefixes q)" and "\<not> is_dir_node (fs x)"
    by (auto simp: find_Some_iff)
  moreover from Some have "resolve_error fs q \<noteq> None"
    by (simp add: resolve_error_def split: option.splits)
  ultimately show ?thesis
    by blast
qed

lemma is_dir_node_None [simp]: "\<not> is_dir_node None"
  by (simp add: is_dir_node_def)

lemma is_dir_node_Dir [simp]: "is_dir_node (Some (Dir w))"
  by (simp add: is_dir_node_def)

lemma is_dir_node_File [simp]: "\<not> is_dir_node (Some (File w))"
  by (simp add: is_dir_node_def)

lemma resolve_error_update:
  assumes "fs p = None" and "resolve_error fs q = None"
  shows "resolve_error (fs(p \<mapsto> n)) q = None"
proof -
  have "is_dir_node ((fs(p \<mapsto> n)) x)" if "x \<in> set (proper_prefixes q)" for x
  proof -
    from that assms(2) have "is_dir_node (fs x)"
      by (simp add: resolve_error_None_iff)
    with assms(1) have "x \<noteq> p"
      by auto
    with \<open>is_dir_node (fs x)\<close> show ?thesis
      by simp
  qed
  then show ?thesis
    by (simp add: resolve_error_None_iff)
qed

lemma is_dir_update:
  assumes "fs p = None" and "is_dir fs q"
  shows "is_dir (fs(p \<mapsto> n)) q"
proof -
  from assms have "q \<noteq> p"
    by (auto simp: is_dir_def)
  with assms show ?thesis
    by (simp add: is_dir_def resolve_error_update)
qed

lemma os_mkdir_Inr:
  assumes "os_mkdir fs p = Inr fs'"
  shows "fs p = None" and "resolve_error fs p = None" and "fs' = fs(p \<mapsto> Dir True)"
  using assms
  by (auto simp: os_mkdir_def split: option.splits node.splits if_splits)

lemma os_mkdir_is_dir:
  assumes "os_mkdir fs p = Inr fs'"
  shows "is_dir fs' p" and "is_dir fs q \<Longrightarrow> is_dir fs' q"
  using os_mkdir_Inr [OF assms]
  by (simp_all add: is_dir_def resolve_error_update is_dir_update [unfolded is_dir_def])

lemma os_mkdir_existing:
  assumes "is_dir fs p"
  shows "os_mkdir fs p = Inl (OSError EEXIST p)"
  using assms
  by (auto simp: os_mkdir_def is_dir_def is_dir_node_def split: option.splits)

lemma os_mkdir_Inl:
  "os_mkdir fs p = Inl a \<Longrightarrow> \<exists>e. a = OSError e p"
  by (auto simp: os_mkdir_def split: option.splits node.splits if_splits)

text \<open>The three ways \<^verbatim>\<open>Path.mkdir\<close> continues after the system call.\<close>

lemma mkdir_created:
  "os_mkdir fs p = Inr fs1 \<Longrightarrow> mkdir fs p parents exist_ok = Inr fs1"
  by (subst mkdir.simps) simp

lemma mkdir_missing:
  "os_mkdir fs p = Inl (OSError ENOENT q) \<Longrightarrow>
   mkdir fs p parents exist_ok =
     (if \<not> parents \<or> parent p = p then Inl (OSError ENOENT q)
      else (case mkdir fs (parent p) True True of
              Inl e \<Rightarrow> Inl e
            | Inr fs1 \<Rightarrow> mkdir fs1 p False exist_ok))"
  by (subst mkdir.simps) simp

lemma mkdir_other:
  "os_mkdir fs p = Inl (OSError e q) \<Longrightarrow> e \<noteq> ENOENT \<Longrightarrow>
   mkdir fs p parents exist_ok =
     (if \<not> exist_ok \<or> \<not> is_dir fs p then Inl (OSError e q) else Inr fs)"
  by (subst mkdir.simps) (cases e; simp)

lemma mkdir_existing:
  assumes "is_dir fs p"
  shows "mkdir fs p parents True = Inr fs"
  using assms by (simp add: mkdir_other [OF os_mkdir_existing])

text \<open>
  A \<^verbatim>\<open>mkdir\<close> that returns leaves the path a directory and keeps every directory there
  was.
\<close>

lemma mkdir_Inr:
  assumes "mkdir fs p parents exist_ok = Inr fs'"
  shows "is_dir fs' p \<and> (\<forall>q. is_dir fs q \<longrightarrow> is_dir fs' q)"
  using assms
proof (induction fs p parents exist_ok arbitrary: fs' rule: mkdir.induct)
  case (1 fs p parents exist_ok)
  show ?case
  proof (cases "os_mkdir fs p")
    case (Inr fs1)
    with "1.prems" have "fs' = fs1"
      by (simp add: mkdir_created)
    with Inr show ?thesis
      by (simp add: os_mkdir_is_dir)
  next
    case (Inl a)
    then obtain e where a: "os_mkdir fs p = Inl (OSError e p)"
      by (auto dest: os_mkdir_Inl)
    show ?thesis
    proof (cases "e = ENOENT")
      case True
      with a have missing: "os_mkdir fs p = Inl (OSError ENOENT p)"
        by simp
      from "1.prems" have go: "\<not> (\<not> parents \<or> parent p = p)"
        by (auto simp: mkdir_missing [OF missing] split: if_splits)
      with "1.prems" obtain fs1 where
        up: "mkdir fs (parent p) True True = Inr fs1" and
        down: "mkdir fs1 p False exist_ok = Inr fs'"
        by (auto simp: mkdir_missing [OF missing] split: sum.splits)
      from "1.IH"(1) [OF missing refl refl go up]
      have mono1: "\<forall>q. is_dir fs q \<longrightarrow> is_dir fs1 q"
        by simp
      from "1.IH"(2) [OF missing refl refl go up down]
      have "is_dir fs' p" and "\<forall>q. is_dir fs1 q \<longrightarrow> is_dir fs' q"
        by simp_all
      with mono1 show ?thesis
        by simp
    next
      case False
      with "1.prems" have "fs' = fs" and "is_dir fs p"
        by (auto simp: mkdir_other [OF a] split: if_splits)
      then show ?thesis
        by simp
    qed
  qed
qed

lemma find_append:
  "List.find P (xs @ ys) = (case List.find P xs of None \<Rightarrow> List.find P ys | Some x \<Rightarrow> Some x)"
  by (induction xs) simp_all

lemma proper_prefixes_snoc: "proper_prefixes (p @ [x]) = proper_prefixes p @ [p]"
  by (simp add: proper_prefixes_def)

lemma resolve_error_snoc:
  "resolve_error fs (p @ [x]) =
     (case resolve_error fs p of
        Some e \<Rightarrow> Some e
      | None \<Rightarrow> (case fs p of None \<Rightarrow> Some ENOENT | Some (File w) \<Rightarrow> Some ENOTDIR | Some (Dir w) \<Rightarrow> None))"
  by (simp add: resolve_error_def proper_prefixes_snoc find_append is_dir_node_def
      split: option.splits node.splits)

lemma os_mkdir_child:
  assumes "is_dir fs p" and "fs p = Some (Dir True)" and "fs (p @ [x]) = None"
  shows "os_mkdir fs (p @ [x]) = Inr (fs(p @ [x] \<mapsto> Dir True))"
  using assms by (simp add: os_mkdir_def resolve_error_snoc parent_def is_dir_def)

lemma os_mkdir_parent_missing:
  assumes "resolve_error fs d = None" and "fs d = None"
  shows "os_mkdir fs (d @ [y]) = Inl (OSError ENOENT (d @ [y]))"
  using assms by (simp add: os_mkdir_def resolve_error_snoc)

lemma mkdir_fresh_child:
  assumes "is_dir fs p" and "fs p = Some (Dir True)" and "fs (p @ [x]) = None"
  shows "mkdir fs (p @ [x]) parents exist_ok = Inr (fs(p @ [x] \<mapsto> Dir True))"
  by (rule mkdir_created) (rule os_mkdir_child [OF assms])

lemma mkdir_fresh_grandchild:
  assumes "is_dir fs p" and "fs p = Some (Dir True)"
    and "fs (p @ [x]) = None" and "fs ((p @ [x]) @ [y]) = None"
  shows "mkdir fs ((p @ [x]) @ [y]) True exist_ok =
           Inr (fs(p @ [x] \<mapsto> Dir True, (p @ [x]) @ [y] \<mapsto> Dir True))"
proof -
  let ?d = "p @ [x]"
  let ?fs1 = "fs(?d \<mapsto> Dir True)"
  from assms(1) have "resolve_error fs ?d = None"
    by (simp add: resolve_error_snoc is_dir_def is_dir_node_def split: option.splits node.splits)
  from this assms(3) have missing: "os_mkdir fs (?d @ [y]) = Inl (OSError ENOENT (?d @ [y]))"
    by (rule os_mkdir_parent_missing)
  have up: "mkdir fs ?d True True = Inr ?fs1"
    by (rule mkdir_fresh_child [OF assms(1-3)])
  then have "is_dir ?fs1 ?d"
    by (simp add: mkdir_Inr)
  moreover have "?fs1 ?d = Some (Dir True)"
    by simp
  moreover from assms(4) have "?fs1 (?d @ [y]) = None"
    by simp
  ultimately have down: "mkdir ?fs1 (?d @ [y]) False exist_ok = Inr (?fs1(?d @ [y] \<mapsto> Dir True))"
    by (rule mkdir_fresh_child)
  have "parent (?d @ [y]) \<noteq> ?d @ [y]"
    by (simp add: parent_def butlast_append)
  then have step: "mkdir fs (?d @ [y]) True exist_ok =
      (case mkdir fs (parent (?d @ [y])) True True of
         Inl e \<Rightarrow> Inl e
       | Inr fs1 \<Rightarrow> mkdir fs1 (?d @ [y]) False exist_ok)"
    by (subst mkdir_missing [OF missing]) simp
  have par: "parent (?d @ [y]) = ?d"
    by (simp add: parent_def butlast_append)
  show ?thesis
    by (simp only: step par up sum.case down)
qed

lemma establish_directories_Inr:
  assumes "establish_directories root fs = Inr fs'"
  shows "is_dir fs' (SCREENSHOTS_DIR root)" and "is_dir fs' (REPORTS_DIR root)"
    and "is_dir fs' (LOGS_DIR root)"
proof -
  from assms obtain fs1 fs2 where
    s: "mkdir fs (SCREENSHOTS_DIR root) True True = Inr fs1" and
    r: "mkdir fs1 (REPORTS_DIR root) True True = Inr fs2" and
    l: "mkdir fs2 (LOGS_DIR root) True True = Inr fs'"
    unfolding establish_directories_def bind_Inr_iff by blast
  from mkdir_Inr [OF s] mkdir_Inr [OF r] mkdir_Inr [OF l]
  show "is_dir fs' (SCREENSHOTS_DIR root)" and "is_dir fs' (REPORTS_DIR root)"
    and "is_dir fs' (LOGS_DIR root)"
    by simp_all
qed

lemma establish_directories_existing:
  assumes "is_dir fs (SCREENSHOTS_DIR root)" and "is_dir fs (REPORTS_DIR root)"
    and "is_dir fs (LOGS_DIR root)"
  shows "establish_directories root fs = Inr fs"
  using assms by (simp add: establish_directories_def bind_def mkdir_existing)

lemma establish_directories_fresh:
  assumes "is_dir fs root" and "fs root = Some (Dir True)"
    and "fs (DATA_DIR root) = None" and "fs (SCREENSHOTS_DIR root) = None"
    and "fs (REPORTS_DIR root) = None" and "fs (LOGS_DIR root) = None"
  shows "establish_directories root fs =
           Inr (fs(DATA_DIR root \<mapsto> Dir True, SCREENSHOTS_DIR root \<mapsto> Dir True,
                   REPORTS_DIR root \<mapsto> Dir True, LOGS_DIR root \<mapsto> Dir True))"
proof -
  let ?D = "root @ [str ''data'']"
  let ?S = "?D @ [str ''screenshots'']"
  let ?R = "?D @ [str ''reports'']"
  let ?L = "root @ [str ''logs'']"
  let ?fs1 = "fs(?D \<mapsto> Dir True, ?S \<mapsto> Dir True)"
  let ?fs2 = "?fs1(?R \<mapsto> Dir True)"
  have s: "mkdir fs ?S True True = Inr ?fs1"
    using assms by (intro mkdir_fresh_grandchild) (simp_all add: DATA_DIR_def SCREENSHOTS_DIR_def)
  have "is_dir ?fs1 ?D"
    using mkdir_Inr [OF mkdir_fresh_child [of fs root "str ''data''" True True]] assms
    by (simp add: DATA_DIR_def is_dir_update SCREENSHOTS_DIR_def)
  moreover have "?fs1 ?D = Some (Dir True)"
    by simp
  moreover have "?fs1 ?R = None"
    using assms by (simp add: REPORTS_DIR_def DATA_DIR_def str_def)
  ultimately have r: "mkdir ?fs1 ?R True True = Inr ?fs2"
    by (rule mkdir_fresh_child)
  have "is_dir ?fs2 root"
    using mkdir_Inr [OF s] mkdir_Inr [OF r] assms(1) by simp
  moreover have "?fs2 root = Some (Dir True)"
    using assms(2) by simp
  moreover have "?fs2 ?L = None"
    using assms by (simp add: LOGS_DIR_def str_def)
  ultimately have l: "mkdir ?fs2 ?L True True = Inr (?fs2(?L \<mapsto> Dir True))"
    by (rule mkdir_fresh_child)
  from s r l show ?thesis
    by (simp add: establish_directories_def bind_def DATA_DIR_def SCREENSHOTS_DIR_def
        REPORTS_DIR_def LOGS_DIR_def)
qed

text \<open>A filesystem that holds the project root \<^verbatim>\<open>/app\<close> and nothing below it.\<close>

lemma example_filesystem_is_fresh:
  "is_dir [[] \<mapsto> Dir True, [str ''app''] \<mapsto> Dir True] [str ''app'']"
  "[[] \<mapsto> Dir True, [str ''app''] \<mapsto> Dir True] [str ''app''] = Some (Dir True)"
  "[[] \<mapsto> Dir True, [str ''app''] \<mapsto> Dir True] (DATA_DIR [str ''app'']) = None"
  "[[] \<mapsto> Dir True, [str ''app''] \<mapsto> Dir True] (SCREENSHOTS_DIR [str ''app'']) = None"
  "[[] \<mapsto> Dir True, [str ''app''] \<mapsto> Dir True] (REPORTS_DIR [str ''app'']) = None"
  "[[] \<mapsto> Dir True, [str ''app''] \<mapsto> Dir True] (LOGS_DIR [str ''app'']) = None"
  by (simp_all add: is_dir_def resolve_error_def proper_prefixes_def DATA_DIR_def
      SCREENSHOTS_DIR_def REPORTS_DIR_def LOGS_DIR_def)

subsection \<open>The logging set-up\<close>

lemma open_append_child:
  assumes "is_dir fs p" and "fs p = Some (Dir True)" and "fs (p @ [x]) = None"
  shows "open_append fs (p @ [x]) = Inr (fs(p @ [x] \<mapsto> File True))"
  using assms by (simp add: open_append_def resolve_error_snoc parent_def is_dir_def)


text \<open>
  The example filesystem after the directories are established, and the logging set-up
  on it with the default level.
\<close>

lemma example_directories_established:
  "establish_directories [str ''app''] [[] \<mapsto> Dir True, [str ''app''] \<mapsto> Dir True] =
     Inr ([[] \<mapsto> Dir True, [str ''app''] \<mapsto> Dir True]
            (DATA_DIR [str ''app''] \<mapsto> Dir True, SCREENSHOTS_DIR [str ''app''] \<mapsto> Dir True,
             REPORTS_DIR [str ''app''] \<mapsto> Dir True, LOGS_DIR [str ''app''] \<mapsto> Dir True))"
  by (rule establish_directories_fresh) (rule example_filesystem_is_fresh)+

lemma cpython_logging_levels:
  "checkLevel (getattr (logging_attributes cpython_logging) (str ''INFO'') (PyInt 20)) = Inr 20"
  "checkLevel (getattr (logging_attributes cpython_logging) (str ''debug'') (PyInt 20)) = Inl TypeError"
  by (simp_all add: checkLevel_def getattr_def cpython_logging_def str_def)


text \<open>
  With \<^verbatim>\<open>LOG_LEVEL=debug\<close> the attribute found is the function \<^verbatim>\<open>logging.debug\<close>, and the
  load ends in the library's \<^verbatim>\<open>TypeError\<close>.
\<close>

lemma lower_case_log_level_fails_load:
  "module_load cpython_logging [str ''app''] [str ''LOG_LEVEL'' \<mapsto> str ''debug'']
     [[] \<mapsto> Dir True, [str ''app''] \<mapsto> Dir True] = Inl TypeError"
proof -
  let ?env = "[str ''LOG_LEVEL'' \<mapsto> str ''debug'']"
  let ?fs1 = "[[] \<mapsto> Dir True, [str ''app''] \<mapsto> Dir True]
        (DATA_DIR [str ''app''] \<mapsto> Dir True, SCREENSHOTS_DIR [str ''app''] \<mapsto> Dir True,
         REPORTS_DIR [str ''app''] \<mapsto> Dir True, LOGS_DIR [str ''app''] \<mapsto> Dir True)"
  have look: "?env (str ''MAX_STEPS'') = None" "?env (str ''SCREENSHOT_TIMEOUT'') = None"
    "?env (str ''DEFAULT_VIEWPORT_WIDTH'') = None" "?env (str ''DEFAULT_VIEWPORT_HEIGHT'') = None"
    "?env (str ''GRID_SIZE'') = None" "?env (str ''NAVIGATION_TIMEOUT'') = None"
    "?env (str ''PAGE_LOAD_WAIT'') = None" "?env (str ''LOG_LEVEL'') = Some (str ''debug'')"
    by (simp_all add: str_def)
  have "valid_numeric_settings ?env"
    unfolding valid_numeric_settings_def numeric_settings_def list.pred_inject look
    by simp
  then obtain cfg where cfg: "load_settings ?env = Inr cfg"
    using valid_numeric_settings_loads by blast
  from load_settings_Inr(16) [OF cfg] look(8) have level: "LOG_LEVEL cfg = str ''debug''"
    by (simp add: getenv_def)
  have "is_dir ?fs1 (LOGS_DIR [str ''app''])"
    by (rule establish_directories_Inr(3) [OF example_directories_established])
  moreover have "?fs1 (LOGS_DIR [str ''app'']) = Some (Dir True)"
    by simp
  moreover have "?fs1 (LOG_FILE [str ''app'']) = None"
    by (simp add: LOG_FILE_def LOGS_DIR_def DATA_DIR_def SCREENSHOTS_DIR_def REPORTS_DIR_def
        str_def)
  ultimately have "open_append ?fs1 (LOG_FILE [str ''app'']) =
      Inr (?fs1(LOG_FILE [str ''app''] \<mapsto> File True))"
    unfolding LOG_FILE_def by (rule open_append_child)
  then have "configure_logging cpython_logging [str ''app''] (str ''debug'') ?fs1 = Inl TypeError"
    using cpython_logging_levels(2)
    by (simp add: configure_logging_def bind_def basicConfig_def cpython_logging_def)
  with cfg level example_directories_established show ?thesis
    by (simp add: module_load_def bind_def)
qed

section \<open>Validation of the credentials\<close>

text \<open>
  C1. Claimed: \<^verbatim>\<open>validate_config()\<close> raises the error that names \<^verbatim>\<open>OPENAI_API_KEY\<close>
  exactly when that key is absent, and returns normally when it is present, whatever
  the optional credentials. The code prints the warning before it looks at the errors.
  On a standard output that cannot encode U+26A0, as soon as an optional key is missing,
  the call with the key present raises \<^verbatim>\<open>UnicodeEncodeError\<close> instead of returning, and
  the call with the key absent raises \<^verbatim>\<open>UnicodeEncodeError\<close> instead of the error that
  names the key. On a UTF-8 standard output the first input returns normally, as
  claimed.
\<close>

theorem validate_config_raises_on_ascii_stdout_whatever_the_key:
  "\<not> falsy (OPENAI_API_KEY (documented_defaults\<lparr>OPENAI_API_KEY := Some (str ''sk-test''),
        GEMINI_API_KEY := Some (str ''g-test'')\<rparr>))
   \<and> validate_config ascii_stdout (documented_defaults\<lparr>OPENAI_API_KEY := Some (str ''sk-test''),
        GEMINI_API_KEY := Some (str ''g-test'')\<rparr>) =
       ([], Inl (ValueError UnicodeEncodeError))
   \<and> validate_config utf8_stdout (documented_defaults\<lparr>OPENAI_API_KEY := Some (str ''sk-test''),
        GEMINI_API_KEY := Some (str ''g-test'')\<rparr>) =
       ([9888 # str '' Warnings: DEEPSEEK_API_KEY is not set (optional auxiliary LLM)''], Inr ())
   \<and> falsy (OPENAI_API_KEY (documented_defaults\<lparr>GEMINI_API_KEY := Some (str ''g-test'')\<rparr>))
   \<and> validate_config ascii_stdout (documented_defaults\<lparr>GEMINI_API_KEY := Some (str ''g-test'')\<rparr>) =
       ([], Inl (ValueError UnicodeEncodeError))"
  by (simp add: validate_config_def print_def ascii_stdout_def utf8_stdout_def falsy_def
      documented_defaults_def str_def)

text \<open>
  C2. Claimed: with \<^verbatim>\<open>OPENAI_API_KEY\<close>, \<^verbatim>\<open>GEMINI_API_KEY\<close> and \<^verbatim>\<open>DEEPSEEK_API_KEY\<close> all
  unset, one call both emits the warning naming the two optional keys and fails with
  the error naming \<^verbatim>\<open>OPENAI_API_KEY\<close>. On a standard output that cannot encode U+26A0
  the call emits nothing and fails with \<^verbatim>\<open>UnicodeEncodeError\<close>, raised by \<^verbatim>\<open>print\<close> before
  the errors are looked at. On a UTF-8 standard output it does both, as claimed.
\<close>

theorem validate_config_all_unset_on_ascii_stdout:
  "validate_config ascii_stdout documented_defaults = ([], Inl (ValueError UnicodeEncodeError))
   \<and> validate_config utf8_stdout documented_defaults =
       ([9888 # str '' Warnings: GEMINI_API_KEY is not set (optional fallback), DEEPSEEK_API_KEY is not set (optional auxiliary LLM)''],
        Inl (ValueError (Message
          (str ''Configuration errors: OPENAI_API_KEY is not set (required for primary LLM)''))))"
  by (simp add: validate_config_def print_def ascii_stdout_def utf8_stdout_def falsy_def
      documented_defaults_def str_def)

text \<open>
  C3. Claimed: a missing optional credential is never fatal; with \<^verbatim>\<open>OPENAI_API_KEY\<close>
  set and nothing else, the call returns normally and the warnings go to standard
  output. On a standard output that cannot encode U+26A0 the same call raises
  \<^verbatim>\<open>UnicodeEncodeError\<close> and writes nothing. On a UTF-8 standard output it prints the
  warning line and returns normally, as claimed.
\<close>

theorem missing_optional_credentials_fatal_on_ascii_stdout:
  "validate_config ascii_stdout (documented_defaults\<lparr>OPENAI_API_KEY := Some (str ''sk-test'')\<rparr>) =
     ([], Inl (ValueError UnicodeEncodeError))
   \<and> validate_config utf8_stdout (documented_defaults\<lparr>OPENAI_API_KEY := Some (str ''sk-test'')\<rparr>) =
       ([9888 # str '' Warnings: GEMINI_API_KEY is not set (optional fallback), DEEPSEEK_API_KEY is not set (optional auxiliary LLM)''],
        Inr ())"
  by (simp add: validate_config_def print_def ascii_stdout_def utf8_stdout_def falsy_def
      documented_defaults_def str_def)

text \<open>
  C9. An empty credential is treated as an absent one. On every standard output, the
  call with a key set to the empty string does exactly what it does with the key unset,
  for each of the three keys, also for settings loaded from an environment that sets
  the variable to the empty string; and with \<^verbatim>\<open>OPENAI_API_KEY\<close> empty it never returns
  normally. On a standard output that takes the warning lines, the empty
  \<^verbatim>\<open>OPENAI_API_KEY\<close> raises the error of the key unset, and an empty \<^verbatim>\<open>GEMINI_API_KEY\<close>
  or \<^verbatim>\<open>DEEPSEEK_API_KEY\<close> gives the warning of the key unset.
\<close>

theorem empty_credential_is_absent:
  "validate_config out (cfg\<lparr>OPENAI_API_KEY := Some []\<rparr>) =
     validate_config out (cfg\<lparr>OPENAI_API_KEY := None\<rparr>)
   \<and> isl (snd (validate_config out (cfg\<lparr>OPENAI_API_KEY := Some []\<rparr>)))
   \<and> (encodes_warnings out \<longrightarrow>
         snd (validate_config out (cfg\<lparr>OPENAI_API_KEY := Some []\<rparr>)) =
           Inl (ValueError (Message
             (str ''Configuration errors: OPENAI_API_KEY is not set (required for primary LLM)''))))
   \<and> validate_config out (cfg\<lparr>GEMINI_API_KEY := Some []\<rparr>) =
       validate_config out (cfg\<lparr>GEMINI_API_KEY := None\<rparr>)
   \<and> (encodes_warnings out \<longrightarrow>
         (\<exists>line \<in> set (fst (validate_config out (cfg\<lparr>GEMINI_API_KEY := Some []\<rparr>))).
            contains line (str ''GEMINI_API_KEY is not set (optional fallback)'')))
   \<and> validate_config out (cfg\<lparr>DEEPSEEK_API_KEY := Some []\<rparr>) =
       validate_config out (cfg\<lparr>DEEPSEEK_API_KEY := None\<rparr>)
   \<and> (encodes_warnings out \<longrightarrow>
         (\<exists>line \<in> set (fst (validate_config out (cfg\<lparr>DEEPSEEK_API_KEY := Some []\<rparr>))).
            contains line (str ''DEEPSEEK_API_KEY is not set (optional auxiliary LLM)'')))
   \<and> (load_settings env = Inr loaded \<and> env (str ''OPENAI_API_KEY'') = Some [] \<longrightarrow>
         validate_config out loaded = validate_config out (loaded\<lparr>OPENAI_API_KEY := None\<rparr>)
         \<and> isl (snd (validate_config out loaded)))
   \<and> (load_settings env = Inr loaded \<and> env (str ''OPENAI_API_KEY'') = Some []
        \<and> encodes_warnings out \<longrightarrow>
         snd (validate_config out loaded) =
           Inl (ValueError (Message
             (str ''Configuration errors: OPENAI_API_KEY is not set (required for primary LLM)''))))
   \<and> (load_settings env = Inr loaded \<and> env (str ''GEMINI_API_KEY'') = Some [] \<longrightarrow>
         validate_config out loaded = validate_config out (loaded\<lparr>GEMINI_API_KEY := None\<rparr>))
   \<and> (load_settings env = Inr loaded \<and> env (str ''GEMINI_API_KEY'') = Some []
        \<and> encodes_warnings out \<longrightarrow>
         (\<exists>line \<in> set (fst (validate_config out loaded)).
            contains line (str ''GEMINI_API_KEY is not set (optional fallback)'')))
   \<and> (load_settings env = Inr loaded \<and> env (str ''DEEPSEEK_API_KEY'') = Some [] \<longrightarrow>
         validate_config out loaded = validate_config out (loaded\<lparr>DEEPSEEK_API_KEY := None\<rparr>))
   \<and> (load_settings env = Inr loaded \<and> env (str ''DEEPSEEK_API_KEY'') = Some []
        \<and> encodes_warnings out \<longrightarrow>
         (\<exists>line \<in> set (fst (validate_config out loaded)).
            contains line (str ''DEEPSEEK_API_KEY is not set (optional auxiliary LLM)'')))"
proof -
  have eq: "validate_config out (c\<lparr>OPENAI_API_KEY := Some []\<rparr>) =
        validate_config out (c\<lparr>OPENAI_API_KEY := None\<rparr>)"
      "validate_config out (c\<lparr>GEMINI_API_KEY := Some []\<rparr>) =
        validate_config out (c\<lparr>GEMINI_API_KEY := None\<rparr>)"
      "validate_config out (c\<lparr>DEEPSEEK_API_KEY := Some []\<rparr>) =
        validate_config out (c\<lparr>DEEPSEEK_API_KEY := None\<rparr>)" for c
    by (simp_all add: validate_config_def falsy_def)
  have same: "c\<lparr>OPENAI_API_KEY := Some []\<rparr> = c" if "OPENAI_API_KEY c = Some []" for c :: config
    using that by simp
  have same_g: "c\<lparr>GEMINI_API_KEY := Some []\<rparr> = c" if "GEMINI_API_KEY c = Some []" for c :: config
    using that by simp
  have same_d: "c\<lparr>DEEPSEEK_API_KEY := Some []\<rparr> = c" if "DEEPSEEK_API_KEY c = Some []"
    for c :: config
    using that by simp
  have fails: "isl (snd (validate_config out c))" if "OPENAI_API_KEY c = Some []" for c
    by (rule validate_config_raises_when_key_missing) (simp add: that falsy_def)
  have err: "snd (validate_config out c) =
      Inl (ValueError (Message
        (str ''Configuration errors: OPENAI_API_KEY is not set (required for primary LLM)'')))"
    if "encodes_warnings out" and "OPENAI_API_KEY c = Some []" for c
    using that by (simp add: validate_config_outcome falsy_def)
  have g: "\<exists>line \<in> set (fst (validate_config out c)).
      contains line (str ''GEMINI_API_KEY is not set (optional fallback)'')"
    if "encodes_warnings out" and "GEMINI_API_KEY c = Some []" for c
    using that by (intro gemini_warning) (simp_all add: falsy_def)
  have d: "\<exists>line \<in> set (fst (validate_config out c)).
      contains line (str ''DEEPSEEK_API_KEY is not set (optional auxiliary LLM)'')"
    if "encodes_warnings out" and "DEEPSEEK_API_KEY c = Some []" for c
    using that by (intro deepseek_warning) (simp_all add: falsy_def)
  note l = load_settings_Inr(1,3,5) [of env loaded]
  show ?thesis
  proof (intro conjI impI; (elim conjE)?)
    show "validate_config out (cfg\<lparr>OPENAI_API_KEY := Some []\<rparr>) =
        validate_config out (cfg\<lparr>OPENAI_API_KEY := None\<rparr>)"
      by (rule eq)
    show "isl (snd (validate_config out (cfg\<lparr>OPENAI_API_KEY := Some []\<rparr>)))"
      by (rule fails) simp
    show "snd (validate_config out (cfg\<lparr>OPENAI_API_KEY := Some []\<rparr>)) =
        Inl (ValueError (Message
          (str ''Configuration errors: OPENAI_API_KEY is not set (required for primary LLM)'')))"
      if "encodes_warnings out"
      using that by (rule err) simp
    show "validate_config out (cfg\<lparr>GEMINI_API_KEY := Some []\<rparr>) =
        validate_config out (cfg\<lparr>GEMINI_API_KEY := None\<rparr>)"
      by (rule eq)
    show "\<exists>line \<in> set (fst (validate_config out (cfg\<lparr>GEMINI_API_KEY := Some []\<rparr>))).
        contains line (str ''GEMINI_API_KEY is not set (optional fallback)'')"
      if "encodes_warnings out"
      using that by (rule g) simp
    show "validate_config out (cfg\<lparr>DEEPSEEK_API_KEY := Some []\<rparr>) =
        validate_config out (cfg\<lparr>DEEPSEEK_API_KEY := None\<rparr>)"
      by (rule eq)
    show "\<exists>line \<in> set (fst (validate_config out (cfg\<lparr>DEEPSEEK_API_KEY := Some []\<rparr>))).
        contains line (str ''DEEPSEEK_API_KEY is not set (optional auxiliary LLM)'')"
      if "encodes_warnings out"
      using that by (rule d) simp
  next
    assume "load_settings env = Inr loaded" and "env (str ''OPENAI_API_KEY'') = Some []"
    then have k: "OPENAI_API_KEY loaded = Some []"
      using l(1) by simp
    from eq(1) [of loaded] same [OF k]
    show "validate_config out loaded = validate_config out (loaded\<lparr>OPENAI_API_KEY := None\<rparr>)"
      by simp
    from k show "isl (snd (validate_config out loaded))"
      by (rule fails)
  next
    assume "load_settings env = Inr loaded" and "env (str ''OPENAI_API_KEY'') = Some []"
      and "encodes_warnings out"
    then show "snd (validate_config out loaded) =
        Inl (ValueError (Message
          (str ''Configuration errors: OPENAI_API_KEY is not set (required for primary LLM)'')))"
      using l(1) by (intro err) simp_all
  next
    assume "load_settings env = Inr loaded" and "env (str ''GEMINI_API_KEY'') = Some []"
    then have k: "GEMINI_API_KEY loaded = Some []"
      using l(2) by simp
    from eq(2) [of loaded] same_g [OF k]
    show "validate_config out loaded = validate_config out (loaded\<lparr>GEMINI_API_KEY := None\<rparr>)"
      by simp
  next
    assume "load_settings env = Inr loaded" and "env (str ''GEMINI_API_KEY'') = Some []"
      and "encodes_warnings out"
    then show "\<exists>line \<in> set (fst (validate_config out loaded)).
        contains line (str ''GEMINI_API_KEY is not set (optional fallback)'')"
      using l(2) by (intro g) simp_all
  next
    assume "load_settings env = Inr loaded" and "env (str ''DEEPSEEK_API_KEY'') = Some []"
    then have k: "DEEPSEEK_API_KEY loaded = Some []"
      using l(3) by simp
    from eq(3) [of loaded] same_d [OF k]
    show "validate_config out loaded = validate_config out (loaded\<lparr>DEEPSEEK_API_KEY := None\<rparr>)"
      by simp
  next
    assume "load_settings env = Inr loaded" and "env (str ''DEEPSEEK_API_KEY'') = Some []"
      and "encodes_warnings out"
    then show "\<exists>line \<in> set (fst (validate_config out loaded)).
        contains line (str ''DEEPSEEK_API_KEY is not set (optional auxiliary LLM)'')"
      using l(3) by (intro d) simp_all
  qed
qed

theorem empty_credential_is_absent_witness:
  "encodes_warnings utf8_stdout
   \<and> load_settings [str ''OPENAI_API_KEY'' \<mapsto> [], str ''GEMINI_API_KEY'' \<mapsto> [],
                  str ''DEEPSEEK_API_KEY'' \<mapsto> []] =
     Inr (documented_defaults\<lparr>OPENAI_API_KEY := Some [], GEMINI_API_KEY := Some [],
                              DEEPSEEK_API_KEY := Some []\<rparr>)
   \<and> snd (validate_config utf8_stdout (documented_defaults\<lparr>OPENAI_API_KEY := Some [],
             GEMINI_API_KEY := Some [], DEEPSEEK_API_KEY := Some []\<rparr>)) =
       Inl (ValueError (Message
         (str ''Configuration errors: OPENAI_API_KEY is not set (required for primary LLM)'')))
   \<and> (\<exists>line \<in> set (fst (validate_config utf8_stdout (documented_defaults\<lparr>
             OPENAI_API_KEY := Some [], GEMINI_API_KEY := Some [],
             DEEPSEEK_API_KEY := Some []\<rparr>))).
         contains line (str ''GEMINI_API_KEY is not set (optional fallback)''))
   \<and> (\<exists>line \<in> set (fst (validate_config utf8_stdout (documented_defaults\<lparr>
             OPENAI_API_KEY := Some [], GEMINI_API_KEY := Some [],
             DEEPSEEK_API_KEY := Some []\<rparr>))).
         contains line (str ''DEEPSEEK_API_KEY is not set (optional auxiliary LLM)''))"
proof -
  let ?env = "[str ''OPENAI_API_KEY'' \<mapsto> [], str ''GEMINI_API_KEY'' \<mapsto> [],
                  str ''DEEPSEEK_API_KEY'' \<mapsto> []]"
  let ?cfg = "documented_defaults\<lparr>OPENAI_API_KEY := Some [], GEMINI_API_KEY := Some [],
                              DEEPSEEK_API_KEY := Some []\<rparr>"
  have look: "?env (str ''OPENAI_API_KEY'') = Some []" "?env (str ''GEMINI_API_KEY'') = Some []"
    "?env (str ''DEEPSEEK_API_KEY'') = Some []"
    "?env (str ''OPENAI_MODEL'') = None" "?env (str ''GEMINI_MODEL'') = None"
    "?env (str ''DEEPSEEK_MODEL'') = None" "?env (str ''DEEPSEEK_BASE_URL'') = None"
    "?env (str ''MAX_STEPS'') = None" "?env (str ''SCREENSHOT_TIMEOUT'') = None"
    "?env (str ''DEFAULT_VIEWPORT_WIDTH'') = None" "?env (str ''DEFAULT_VIEWPORT_HEIGHT'') = None"
    "?env (str ''GRID_SIZE'') = None" "?env (str ''GRID_COLOR'') = None"
    "?env (str ''NAVIGATION_TIMEOUT'') = None" "?env (str ''PAGE_LOAD_WAIT'') = None"
    "?env (str ''LOG_LEVEL'') = None"
    by (simp_all add: str_def)
  have load: "load_settings ?env = Inr ?cfg"
    unfolding load_settings_def getenv_def look option.case default_literals
    by (simp add: bind_def documented_defaults_def)
  from empty_credential_is_absent [of utf8_stdout _ ?env ?cfg] load look(1-3)
    utf8_stdout_encodes_warnings
  show ?thesis
    by blast
qed

section \<open>Resolution of the settings\<close>

text \<open>
  C4. Every setting follows the precedence: the value in the environment, else the
  documented default. When every numeric variable that is set holds a literal that
  \<^verbatim>\<open>int\<close> accepts, the load succeeds; a string setting that is unset equals its
  documented default and one that is set equals the value given (the three keys are
  \<^verbatim>\<open>None\<close> when unset); a numeric setting that is unset equals its documented default,
  an integer, and one that is set equals the integer \<^verbatim>\<open>int\<close> reads from the value.
\<close>

theorem settings_follow_environment_then_default:
  assumes "valid_numeric_settings env"
  shows "\<exists>cfg. load_settings env = Inr cfg
    \<and> OPENAI_API_KEY cfg =
         (case env (str ''OPENAI_API_KEY'') of
            None \<Rightarrow> OPENAI_API_KEY documented_defaults | Some v \<Rightarrow> Some v)
    \<and> OPENAI_MODEL cfg =
         (case env (str ''OPENAI_MODEL'') of
            None \<Rightarrow> OPENAI_MODEL documented_defaults | Some v \<Rightarrow> v)
    \<and> GEMINI_API_KEY cfg =
         (case env (str ''GEMINI_API_KEY'') of
            None \<Rightarrow> GEMINI_API_KEY documented_defaults | Some v \<Rightarrow> Some v)
    \<and> GEMINI_MODEL cfg =
         (case env (str ''GEMINI_MODEL'') of
            None \<Rightarrow> GEMINI_MODEL documented_defaults | Some v \<Rightarrow> v)
    \<and> DEEPSEEK_API_KEY cfg =
         (case env (str ''DEEPSEEK_API_KEY'') of
            None \<Rightarrow> DEEPSEEK_API_KEY documented_defaults | Some v \<Rightarrow> Some v)
    \<and> DEEPSEEK_MODEL cfg =
         (case env (str ''DEEPSEEK_MODEL'') of
            None \<Rightarrow> DEEPSEEK_MODEL documented_defaults | Some v \<Rightarrow> v)
    \<and> DEEPSEEK_BASE_URL cfg =
         (case env (str ''DEEPSEEK_BASE_URL'') of
            None \<Rightarrow> DEEPSEEK_BASE_URL documented_defaults | Some v \<Rightarrow> v)
    \<and> GRID_COLOR cfg =
         (case env (str ''GRID_COLOR'') of
            None \<Rightarrow> GRID_COLOR documented_defaults | Some v \<Rightarrow> v)
    \<and> LOG_LEVEL cfg =
         (case env (str ''LOG_LEVEL'') of
            None \<Rightarrow> LOG_LEVEL documented_defaults | Some v \<Rightarrow> v)
    \<and> (case env (str ''MAX_STEPS'') of
          None \<Rightarrow> MAX_STEPS cfg = MAX_STEPS documented_defaults
        | Some v \<Rightarrow> python_int v = Inr (MAX_STEPS cfg))
    \<and> (case env (str ''SCREENSHOT_TIMEOUT'') of
          None \<Rightarrow> SCREENSHOT_TIMEOUT cfg = SCREENSHOT_TIMEOUT documented_defaults
        | Some v \<Rightarrow> python_int v = Inr (SCREENSHOT_TIMEOUT cfg))
    \<and> (case env (str ''DEFAULT_VIEWPORT_WIDTH'') of
          None \<Rightarrow> DEFAULT_VIEWPORT_WIDTH cfg = DEFAULT_VIEWPORT_WIDTH documented_defaults
        | Some v \<Rightarrow> python_int v = Inr (DEFAULT_VIEWPORT_WIDTH cfg))
    \<and> (case env (str ''DEFAULT_VIEWPORT_HEIGHT'') of
          None \<Rightarrow> DEFAULT_VIEWPORT_HEIGHT cfg = DEFAULT_VIEWPORT_HEIGHT documented_defaults
        | Some v \<Rightarrow> python_int v = Inr (DEFAULT_VIEWPORT_HEIGHT cfg))
    \<and> (case env (str ''GRID_SIZE'') of
          None \<Rightarrow> GRID_SIZE cfg = GRID_SIZE documented_defaults
        | Some v \<Rightarrow> python_int v = Inr (GRID_SIZE cfg))
    \<and> (case env (str ''NAVIGATION_TIMEOUT'') of
          None \<Rightarrow> NAVIGATION_TIMEOUT cfg = NAVIGATION_TIMEOUT documented_defaults
        | Some v \<Rightarrow> python_int v = Inr (NAVIGATION_TIMEOUT cfg))
    \<and> (case env (str ''PAGE_LOAD_WAIT'') of
          None \<Rightarrow> PAGE_LOAD_WAIT cfg = PAGE_LOAD_WAIT documented_defaults
        | Some v \<Rightarrow> python_int v = Inr (PAGE_LOAD_WAIT cfg))"
proof -
  from valid_numeric_settings_loads [OF assms] obtain cfg where cfg: "load_settings env = Inr cfg"
    by blast
  from cfg load_settings_precedence [OF cfg] load_settings_numeric_precedence [OF cfg]
  show ?thesis
    by (intro exI [of _ cfg] conjI)
qed

theorem settings_follow_environment_then_default_witness:
  "valid_numeric_settings
     [str ''MAX_STEPS'' \<mapsto> str ''20'', str ''OPENAI_MODEL'' \<mapsto> str ''gpt-5.2'']
   \<and> (\<exists>cfg. load_settings
                [str ''MAX_STEPS'' \<mapsto> str ''20'', str ''OPENAI_MODEL'' \<mapsto> str ''gpt-5.2'']
              = Inr cfg
          \<and> MAX_STEPS cfg = 20 \<and> OPENAI_MODEL cfg = str ''gpt-5.2''
          \<and> GRID_SIZE cfg = 100 \<and> OPENAI_API_KEY cfg = None \<and> LOG_LEVEL cfg = str ''INFO'')
   \<and> load_settings Map.empty = Inr documented_defaults"
proof -
  let ?env = "[str ''MAX_STEPS'' \<mapsto> str ''20'', str ''OPENAI_MODEL'' \<mapsto> str ''gpt-5.2'']"
  have twenty: "python_int (str ''20'') = Inr 20"
    by (simp add: python_int_eval)
  have look: "?env (str ''MAX_STEPS'') = Some (str ''20'')"
    "?env (str ''OPENAI_MODEL'') = Some (str ''gpt-5.2'')"
    "?env (str ''SCREENSHOT_TIMEOUT'') = None" "?env (str ''DEFAULT_VIEWPORT_WIDTH'') = None"
    "?env (str ''DEFAULT_VIEWPORT_HEIGHT'') = None" "?env (str ''GRID_SIZE'') = None"
    "?env (str ''NAVIGATION_TIMEOUT'') = None" "?env (str ''PAGE_LOAD_WAIT'') = None"
    "?env (str ''OPENAI_API_KEY'') = None" "?env (str ''LOG_LEVEL'') = None"
    by (simp_all add: str_def)
  have valid: "valid_numeric_settings ?env"
    unfolding valid_numeric_settings_def numeric_settings_def list.pred_inject look
    by (simp add: twenty)
  from settings_follow_environment_then_default [OF valid]
  have "\<exists>cfg. load_settings ?env = Inr cfg
          \<and> MAX_STEPS cfg = 20 \<and> OPENAI_MODEL cfg = str ''gpt-5.2''
          \<and> GRID_SIZE cfg = 100 \<and> OPENAI_API_KEY cfg = None \<and> LOG_LEVEL cfg = str ''INFO''"
    unfolding look option.case twenty
    by (auto simp: documented_defaults_def)
  with valid empty_environment_loads_defaults show ?thesis
    by blast
qed

text \<open>
  C5. A numeric variable set to a value that \<^verbatim>\<open>int\<close> rejects, as \<^verbatim>\<open>MAX_STEPS=abc\<close>,
  makes the load fail; no default is used in its place. The exception is the
  \<^verbatim>\<open>ValueError\<close> that \<^verbatim>\<open>int\<close> raises for a numeric variable that is set (for
  \<^verbatim>\<open>MAX_STEPS\<close>, the first one read, its own), not a message of \<^verbatim>\<open>validate_config\<close>.
  The load of the module fails whatever the filesystem, and with that \<^verbatim>\<open>ValueError\<close>
  once the directories are established.
\<close>

theorem malformed_numeric_setting_fails_load:
  assumes "k \<in> set numeric_settings" and "env k = Some v" and "isl (python_int v)"
  shows "(\<exists>e. load_settings env = Inl (ValueError e) \<and> (\<forall>m. e \<noteq> Message m)
            \<and> (\<exists>k' v'. k' \<in> set numeric_settings \<and> env k' = Some v'
                  \<and> python_int v' = Inl (ValueError e)))
    \<and> (k = str ''MAX_STEPS'' \<longrightarrow> (\<exists>e. python_int v = Inl e \<and> load_settings env = Inl e))
    \<and> isl (module_load lg root env fs)
    \<and> (establish_directories root fs = Inr fs' \<longrightarrow>
          (\<exists>e. load_settings env = Inl e \<and> module_load lg root env fs = Inl e))"
proof -
  from load_settings_rejects [where env = env, OF assms] obtain e where e: "load_settings env = Inl e"
    by (cases "load_settings env") auto
  from load_settings_error_source [OF e] obtain k' v' where
    src: "k' \<in> set numeric_settings" "env k' = Some v'" "python_int v' = Inl e"
    by blast
  from python_int_error [OF src(3)] obtain ve where ve: "e = ValueError ve" "\<forall>m. ve \<noteq> Message m"
    by blast
  have first: "\<exists>e. python_int v = Inl e \<and> load_settings env = Inl e" if "k = str ''MAX_STEPS''"
  proof -
    from assms(3) obtain e0 where "python_int v = Inl e0"
      by (cases "python_int v") auto
    with that assms(2) show ?thesis
      by (simp add: load_settings_def getenv_def bind_def)
  qed
  have "isl (module_load lg root env fs)"
    using e by (simp add: module_load_def bind_def split: sum.splits)
  moreover have "module_load lg root env fs = Inl e" if "establish_directories root fs = Inr fs'"
    using e that by (simp add: module_load_def bind_def)
  ultimately show ?thesis
    using e src ve first by blast
qed

theorem malformed_numeric_setting_fails_load_witness:
  "str ''MAX_STEPS'' \<in> set numeric_settings
   \<and> [str ''MAX_STEPS'' \<mapsto> str ''abc''] (str ''MAX_STEPS'') = Some (str ''abc'')
   \<and> isl (python_int (str ''abc''))
   \<and> load_settings [str ''MAX_STEPS'' \<mapsto> str ''abc''] =
       Inl (ValueError (InvalidLiteral (str ''abc'')))
   \<and> module_load cpython_logging [str ''app''] [str ''MAX_STEPS'' \<mapsto> str ''abc'']
         [[] \<mapsto> Dir True, [str ''app''] \<mapsto> Dir True] =
       Inl (ValueError (InvalidLiteral (str ''abc'')))"
proof -
  let ?env = "[str ''MAX_STEPS'' \<mapsto> str ''abc'']"
  let ?fs = "[[] \<mapsto> Dir True, [str ''app''] \<mapsto> Dir True]"
  have abc: "python_int (str ''abc'') = Inl (ValueError (InvalidLiteral (str ''abc'')))"
    by (simp add: python_int_eval)
  have "isl (python_int (str ''abc''))"
    by (rule non_numeric_character_rejected [of 97])
      (simp_all add: str_def Py_ISSPACE_def digit_or_underscore_def is_digit_def)
  then have hyps: "str ''MAX_STEPS'' \<in> set numeric_settings"
    "?env (str ''MAX_STEPS'') = Some (str ''abc'')" "isl (python_int (str ''abc''))"
    by (simp_all add: numeric_settings_def)
  have dirs: "establish_directories [str ''app''] ?fs =
      Inr (?fs(DATA_DIR [str ''app''] \<mapsto> Dir True, SCREENSHOTS_DIR [str ''app''] \<mapsto> Dir True,
             REPORTS_DIR [str ''app''] \<mapsto> Dir True, LOGS_DIR [str ''app''] \<mapsto> Dir True))"
    by (rule establish_directories_fresh) (rule example_filesystem_is_fresh)+
  from malformed_numeric_setting_fails_load
      [where env = ?env and lg = cpython_logging and root = "[str ''app'']" and fs = ?fs
         and fs' = "?fs(DATA_DIR [str ''app''] \<mapsto> Dir True,
           SCREENSHOTS_DIR [str ''app''] \<mapsto> Dir True,
           REPORTS_DIR [str ''app''] \<mapsto> Dir True, LOGS_DIR [str ''app''] \<mapsto> Dir True)",
         OF hyps]
    abc hyps dirs
  show ?thesis
    by auto
qed




section \<open>Reference data\<close>

text \<open>
  C6. The heuristics are exactly ten, in the documented order from "Visibility of
  system status" to "Help and documentation", so that the index identifies the
  heuristic. The list is a constant of the module: no function of the module takes,
  returns or assigns it, so every read gives this value.
\<close>

theorem nielsen_heuristics_fixed:
  "length NIELSEN_HEURISTICS = 10
   \<and> NIELSEN_HEURISTICS ! 0 = str ''Visibility of system status''
   \<and> NIELSEN_HEURISTICS ! 1 = str ''Match between system and the real world''
   \<and> NIELSEN_HEURISTICS ! 2 = str ''User control and freedom''
   \<and> NIELSEN_HEURISTICS ! 3 = str ''Consistency and standards''
   \<and> NIELSEN_HEURISTICS ! 4 = str ''Error prevention''
   \<and> NIELSEN_HEURISTICS ! 5 = str ''Recognition rather than recall''
   \<and> NIELSEN_HEURISTICS ! 6 = str ''Flexibility and efficiency of use''
   \<and> NIELSEN_HEURISTICS ! 7 = str ''Aesthetic and minimalist design''
   \<and> NIELSEN_HEURISTICS ! 8 = str ''Help users recognize, diagnose, and recover from errors''
   \<and> NIELSEN_HEURISTICS ! 9 = str ''Help and documentation''
   \<and> distinct NIELSEN_HEURISTICS"
proof -
  have "distinct NIELSEN_HEURISTICS"
    by (simp add: NIELSEN_HEURISTICS_def str_def)
  then show ?thesis
    by (simp add: NIELSEN_HEURISTICS_def)
qed

text \<open>
  C7. The persona mapping has exactly the keys \<^verbatim>\<open>student\<close>, \<^verbatim>\<open>applicant\<close> and
  \<^verbatim>\<open>teacher\<close>, and the \<^verbatim>\<open>goals\<close>, \<^verbatim>\<open>pain_points\<close>, \<^verbatim>\<open>characteristics\<close> and \<^verbatim>\<open>devices\<close> of
  every persona in it are non-empty.
\<close>

theorem personas_keys_and_nonempty_fields:
  "map fst PERSONAS = [str ''student'', str ''applicant'', str ''teacher'']
   \<and> distinct (map fst PERSONAS)
   \<and> dom (map_of PERSONAS) = {str ''student'', str ''applicant'', str ''teacher''}
   \<and> (\<forall>k p. map_of PERSONAS k = Some p \<longrightarrow>
         goals p \<noteq> [] \<and> pain_points p \<noteq> [] \<and> characteristics p \<noteq> [] \<and> devices p \<noteq> [])"
proof (intro conjI allI impI)
  show keys: "map fst PERSONAS = [str ''student'', str ''applicant'', str ''teacher'']"
    by (simp add: PERSONAS_def)
  show "distinct (map fst PERSONAS)"
    unfolding keys by (simp add: str_def)
  show "dom (map_of PERSONAS) = {str ''student'', str ''applicant'', str ''teacher''}"
    unfolding dom_map_of_conv_image_fst by (simp add: PERSONAS_def)
next
  fix k p
  assume "map_of PERSONAS k = Some p"
  then have "(k, p) \<in> set PERSONAS"
    by (rule map_of_SomeD)
  then have p: "p = student_persona \<or> p = applicant_persona \<or> p = teacher_persona"
    by (auto simp: PERSONAS_def)
  have "goals student_persona \<noteq> []" "pain_points student_persona \<noteq> []"
    "characteristics student_persona \<noteq> []" "devices student_persona \<noteq> []"
    by (simp_all add: student_persona_def)
  moreover have "goals applicant_persona \<noteq> []" "pain_points applicant_persona \<noteq> []"
    "characteristics applicant_persona \<noteq> []" "devices applicant_persona \<noteq> []"
    by (simp_all add: applicant_persona_def)
  moreover have "goals teacher_persona \<noteq> []" "pain_points teacher_persona \<noteq> []"
    "characteristics teacher_persona \<noteq> []" "devices teacher_persona \<noteq> []"
    by (simp_all add: teacher_persona_def)
  ultimately show "goals p \<noteq> []" "pain_points p \<noteq> []" "characteristics p \<noteq> []"
    "devices p \<noteq> []"
    using p by auto
qed

theorem personas_keys_and_nonempty_fields_witness:
  "map_of PERSONAS (str ''teacher'') = Some teacher_persona
   \<and> goals teacher_persona \<noteq> [] \<and> pain_points teacher_persona \<noteq> []
   \<and> characteristics teacher_persona \<noteq> [] \<and> devices teacher_persona \<noteq> []
   \<and> length (devices teacher_persona) = 2"
proof -
  have "map_of PERSONAS (str ''teacher'') = Some teacher_persona"
    by (simp add: PERSONAS_def str_def)
  moreover have "length (devices teacher_persona) = 2"
    by (simp add: teacher_persona_def)
  ultimately show ?thesis
    using personas_keys_and_nonempty_fields by blast
qed

section \<open>Directory establishment\<close>

text \<open>
  C8. Establishing the three directories is idempotent. A run that returns leaves the
  three directories present, and a second run on the filesystem it produced returns
  that filesystem unchanged; when the three directories exist already the run is a
  no-op; and from a writable project root with none of them the run creates the missing
  parent \<^verbatim>\<open>data\<close> and the three directories, and nothing else.
\<close>

theorem establish_directories_idempotent:
  "(establish_directories root fs = Inr fs' \<longrightarrow>
      establish_directories root fs' = Inr fs'
      \<and> is_dir fs' (SCREENSHOTS_DIR root) \<and> is_dir fs' (REPORTS_DIR root)
      \<and> is_dir fs' (LOGS_DIR root))
   \<and> (is_dir fs (SCREENSHOTS_DIR root) \<and> is_dir fs (REPORTS_DIR root)
        \<and> is_dir fs (LOGS_DIR root) \<longrightarrow>
      establish_directories root fs = Inr fs)
   \<and> (is_dir fs root \<and> fs root = Some (Dir True) \<and> fs (DATA_DIR root) = None
        \<and> fs (SCREENSHOTS_DIR root) = None \<and> fs (REPORTS_DIR root) = None
        \<and> fs (LOGS_DIR root) = None \<longrightarrow>
      establish_directories root fs =
        Inr (fs(DATA_DIR root \<mapsto> Dir True, SCREENSHOTS_DIR root \<mapsto> Dir True,
                REPORTS_DIR root \<mapsto> Dir True, LOGS_DIR root \<mapsto> Dir True)))"
  using establish_directories_Inr [of root fs fs']
    establish_directories_existing [of fs' root]
    establish_directories_existing [of fs root]
    establish_directories_fresh [of fs root]
  by blast

theorem establish_directories_idempotent_witness:
  "establish_directories [str ''app''] [[] \<mapsto> Dir True, [str ''app''] \<mapsto> Dir True] =
     Inr ([[] \<mapsto> Dir True, [str ''app''] \<mapsto> Dir True]
            (DATA_DIR [str ''app''] \<mapsto> Dir True, SCREENSHOTS_DIR [str ''app''] \<mapsto> Dir True,
             REPORTS_DIR [str ''app''] \<mapsto> Dir True, LOGS_DIR [str ''app''] \<mapsto> Dir True))
   \<and> establish_directories [str ''app'']
         ([[] \<mapsto> Dir True, [str ''app''] \<mapsto> Dir True]
            (DATA_DIR [str ''app''] \<mapsto> Dir True, SCREENSHOTS_DIR [str ''app''] \<mapsto> Dir True,
             REPORTS_DIR [str ''app''] \<mapsto> Dir True, LOGS_DIR [str ''app''] \<mapsto> Dir True)) =
     Inr ([[] \<mapsto> Dir True, [str ''app''] \<mapsto> Dir True]
            (DATA_DIR [str ''app''] \<mapsto> Dir True, SCREENSHOTS_DIR [str ''app''] \<mapsto> Dir True,
             REPORTS_DIR [str ''app''] \<mapsto> Dir True, LOGS_DIR [str ''app''] \<mapsto> Dir True))
   \<and> is_dir ([[] \<mapsto> Dir True, [str ''app''] \<mapsto> Dir True]
            (DATA_DIR [str ''app''] \<mapsto> Dir True, SCREENSHOTS_DIR [str ''app''] \<mapsto> Dir True,
             REPORTS_DIR [str ''app''] \<mapsto> Dir True, LOGS_DIR [str ''app''] \<mapsto> Dir True))
         (SCREENSHOTS_DIR [str ''app''])
   \<and> is_dir ([[] \<mapsto> Dir True, [str ''app''] \<mapsto> Dir True]
            (DATA_DIR [str ''app''] \<mapsto> Dir True, SCREENSHOTS_DIR [str ''app''] \<mapsto> Dir True,
             REPORTS_DIR [str ''app''] \<mapsto> Dir True, LOGS_DIR [str ''app''] \<mapsto> Dir True))
         (REPORTS_DIR [str ''app''])
   \<and> is_dir ([[] \<mapsto> Dir True, [str ''app''] \<mapsto> Dir True]
            (DATA_DIR [str ''app''] \<mapsto> Dir True, SCREENSHOTS_DIR [str ''app''] \<mapsto> Dir True,
             REPORTS_DIR [str ''app''] \<mapsto> Dir True, LOGS_DIR [str ''app''] \<mapsto> Dir True))
         (LOGS_DIR [str ''app''])"
proof -
  let ?root = "[str ''app'']"
  let ?fs = "[[] \<mapsto> Dir True, [str ''app''] \<mapsto> Dir True]"
  let ?fs' = "?fs(DATA_DIR ?root \<mapsto> Dir True, SCREENSHOTS_DIR ?root \<mapsto> Dir True,
    REPORTS_DIR ?root \<mapsto> Dir True, LOGS_DIR ?root \<mapsto> Dir True)"
  from establish_directories_idempotent [of ?root ?fs ?fs'] example_filesystem_is_fresh
  have first: "establish_directories ?root ?fs = Inr ?fs'"
    by blast
  with establish_directories_idempotent [of ?root ?fs ?fs']
  have again: "establish_directories ?root ?fs' = Inr ?fs'"
    and there: "is_dir ?fs' (SCREENSHOTS_DIR ?root)" "is_dir ?fs' (REPORTS_DIR ?root)"
      "is_dir ?fs' (LOGS_DIR ?root)"
    by blast+
  from there establish_directories_idempotent [of ?root ?fs' ?fs']
  have "establish_directories ?root ?fs' = Inr ?fs'"
    by blast
  with first there show ?thesis
    by blast
qed

end
